theory Spec2Isabelle
  imports Complex_Main
begin

section \<open>JavaScript values, strings and regular expressions\<close>

text \<open>
  A JavaScript string is a sequence of UTF-16 code units; a code unit is modelled as a
  natural number. Keywords written in Basic Latin are given as \<open>asc ''...''\<close>, Hangul
  keywords as the list of their code units.
\<close>

type_synonym jsstring = "nat list"

definition asc :: "string \<Rightarrow> jsstring" where
  "asc s = map of_char s"

text \<open>
  The fields of a feed item are arbitrary JavaScript values. \<open>JObject\<close> stands for any
  value that is neither a primitive nor a string (an array, an object).
\<close>

datatype jsval = JUndefined | JNull | JBool bool | JNumber int | JString jsstring | JObject

fun truthy :: "jsval \<Rightarrow> bool" where
  "truthy JUndefined = False"
| "truthy JNull = False"
| "truthy (JBool b) = b"
| "truthy (JNumber n) = (n \<noteq> 0)"
| "truthy (JString s) = (s \<noteq> [])"
| "truthy JObject = True"

text \<open>\<open>a || b\<close>: the left operand when it is truthy, the right operand otherwise.\<close>

definition js_or :: "jsval \<Rightarrow> jsval \<Rightarrow> jsval" where
  "js_or a b = (if truthy a then a else b)"

datatype error = TypeError string | Error string

text \<open>
  \<open>v.toLowerCase()\<close>: only a string has the method, a call on any other value raises
  a TypeError. The Unicode case mapping itself belongs to the language runtime and is a
  parameter \<open>lc\<close> of the model.
\<close>

fun toLowerCase :: "(jsstring \<Rightarrow> jsstring) \<Rightarrow> jsval \<Rightarrow> error + jsstring" where
  "toLowerCase lc (JString s) = Inr (lc s)"
| "toLowerCase lc v = Inl (TypeError ''toLowerCase is not a function'')"

text \<open>
  The case mapping of Basic Latin, which is what the runtime's mapping does on a string
  of Basic Latin characters; used to run the model on concrete articles.
\<close>

definition ascii_lower :: "jsstring \<Rightarrow> jsstring" where
  "ascii_lower s = map (\<lambda>c. if 65 \<le> c \<and> c \<le> 90 then c + 32 else c) s"

fun starts_with :: "jsstring \<Rightarrow> jsstring \<Rightarrow> bool" where
  "starts_with s [] = True"
| "starts_with [] (k # ks) = False"
| "starts_with (c # s) (k # ks) = (c = k \<and> starts_with s ks)"

text \<open>\<open>s.includes(k)\<close>: \<open>k\<close> occurs in \<open>s\<close> as a contiguous run of code units.\<close>

fun str_includes :: "jsstring \<Rightarrow> jsstring \<Rightarrow> bool" where
  "str_includes [] k = (k = [])"
| "str_includes (c # s) k = (starts_with (c # s) k \<or> str_includes s k)"

text \<open>\<open>ks.some(k => s.includes(k))\<close>\<close>

definition some_included :: "jsstring list \<Rightarrow> jsstring \<Rightarrow> bool" where
  "some_included ks s = list_ex (\<lambda>k. str_includes s k) ks"

text \<open>
  Every regular expression of the filter has the shape \<open>/A.*B/i\<close> with literal \<open>A\<close> and
  \<open>B\<close>. The flag \<open>i\<close> compares canonicalised code units; the literals consist of small
  Basic Latin letters and Hangul syllables, for which two code units are equal after
  canonicalisation exactly when they are equal after mapping \<open>a\<close>..\<open>z\<close> to \<open>A\<close>..\<open>Z\<close>.
  The dot matches every code unit except the four line terminators.
\<close>

datatype regex = DotStar jsstring jsstring

definition canonicalize :: "nat \<Rightarrow> nat" where
  "canonicalize c = (if 97 \<le> c \<and> c \<le> 122 then c - 32 else c)"

definition lineTerminator :: "nat \<Rightarrow> bool" where
  "lineTerminator c = (c = 0x0A \<or> c = 0x0D \<or> c = 0x2028 \<or> c = 0x2029)"

fun starts_with_ci :: "jsstring \<Rightarrow> jsstring \<Rightarrow> bool" where
  "starts_with_ci s [] = True"
| "starts_with_ci [] (k # ks) = False"
| "starts_with_ci (c # s) (k # ks) = (canonicalize c = canonicalize k \<and> starts_with_ci s ks)"

fun dotstar_then :: "jsstring \<Rightarrow> jsstring \<Rightarrow> bool" where
  "dotstar_then [] b = starts_with_ci [] b"
| "dotstar_then (c # s) b =
     (starts_with_ci (c # s) b \<or> (\<not> lineTerminator c \<and> dotstar_then s b))"

fun match_at :: "regex \<Rightarrow> jsstring \<Rightarrow> bool" where
  "match_at (DotStar a b) t = (starts_with_ci t a \<and> dotstar_then (drop (length a) t) b)"

text \<open>\<open>pattern.test(s)\<close>: the pattern matches at some position of \<open>s\<close>.\<close>

fun regex_test :: "regex \<Rightarrow> jsstring \<Rightarrow> bool" where
  "regex_test r [] = match_at r []"
| "regex_test r (c # s) = (match_at r (c # s) \<or> regex_test r s)"

definition some_pattern :: "regex list \<Rightarrow> jsstring \<Rightarrow> bool" where
  "some_pattern ps s = list_ex (\<lambda>p. regex_test p s) ps"

section \<open>The content filter (AdvancedContentFilter)\<close>

subsection \<open>Keyword and pattern tables\<close>

definition projectTechStack_primary :: "jsstring list" where
  "projectTechStack_primary = [
    asc ''typescript'', asc ''react'', asc ''tailwind css'', asc ''tailwindcss'', asc ''vite'',
    asc ''radix ui'', asc ''storybook'', asc ''pnpm'', asc ''zustand'', asc ''tanstack'',
    asc ''react query'', asc ''tanstack query'', asc ''tanstack router'',
    asc ''tanstack table'', asc ''apache echarts'', asc ''eslint'', asc ''stylelint'',
    asc ''prettier'', asc ''playwright'', asc ''feature sliced design'', asc ''fsd'',
    asc ''headless ui'']"

definition projectTechStack_secondary :: "jsstring list" where
  "projectTechStack_secondary = [
    asc ''react ecosystem'', asc ''typescript config'', asc ''vite config'',
    asc ''tailwind config'', asc ''headless components'', asc ''radix primitives'',
    asc ''component library'', asc ''state management'', asc ''data fetching'',
    asc ''react hooks'', asc ''custom hooks'', asc ''react patterns'',
    asc ''typescript patterns'', asc ''frontend architecture'', asc ''cursor ai'',
    asc ''claude code'', asc ''github copilot'', asc ''ai assistant'', asc ''ai development'',
    asc ''ai coding'', asc ''coding assistant'', asc ''ai tools'',
    asc ''claude api integration'', asc ''openai integration'', asc ''llm integration'']"

definition webFrontendTech_high :: "jsstring list" where
  "webFrontendTech_high = [
    asc ''javascript'', asc ''typescript'', asc ''react'', asc ''html5'', asc ''css3'',
    asc ''frontend development'', asc ''web development'', asc ''single page application'',
    asc ''spa'', asc ''component architecture'', asc ''react components'', asc ''hooks'',
    asc ''jsx'', asc ''tsx'', asc ''dom manipulation'', asc ''web api'', asc ''browser api'',
    asc ''fetch api'', asc ''es6'', asc ''es2015'', asc ''es2020'', asc ''modern javascript'',
    asc ''web standards'', asc ''web components'', asc ''custom elements'']"

definition webFrontendTech_medium :: "jsstring list" where
  "webFrontendTech_medium = [
    asc ''frontend'', asc ''front-end'', asc ''web app'', asc ''web application'',
    asc ''responsive design'', asc ''mobile first'', asc ''css grid'', asc ''flexbox'',
    asc ''web performance'', asc ''core web vitals'', asc ''lighthouse'',
    asc ''accessibility'', asc ''a11y'', asc ''semantic html'', asc ''aria'',
    asc ''progressive enhancement'', asc ''graceful degradation'', asc ''cross browser'',
    asc ''polyfill'', asc ''transpilation'']"

definition webFrontendTech_low :: "jsstring list" where
  "webFrontendTech_low = [
    asc ''ui'', asc ''user interface'', asc ''user experience'', asc ''design system'',
    asc ''design tokens'', asc ''css preprocessor'', asc ''css modules'', asc ''web design'',
    asc ''interaction design'', asc ''animation'', asc ''transition'', asc ''transform'',
    asc ''svg'', asc ''canvas'']"

definition aiFrontendTech_high :: "jsstring list" where
  "aiFrontendTech_high = [
    asc ''ai frontend'', asc ''frontend ai'', asc ''machine learning frontend'', asc ''ai ui'',
    asc ''ai user interface'', asc ''chatbot ui'', asc ''conversational ui'',
    asc ''ai dashboard'', asc ''ml dashboard'', asc ''data visualization'',
    asc ''ai components'', asc ''smart components'', asc ''intelligent ui'',
    asc ''ai/ml frontend'', asc ''frontend for ai'', asc ''ai web app'', asc ''openai'',
    asc ''claude'', asc ''anthropic'', asc ''chatgpt'', asc ''gpt-4'', asc ''gpt-3'',
    asc ''claude api'', asc ''openai api'', asc ''anthropic api'', asc ''cursor ai'',
    asc ''cursor editor'', asc ''claude code'', asc ''copilot'', asc ''github copilot'',
    asc ''ai assistant'', asc ''coding assistant'', asc ''ai development'',
    asc ''ai programming'', asc ''llm integration'']"

definition aiFrontendTech_medium :: "jsstring list" where
  "aiFrontendTech_medium = [
    asc ''tensorflow.js'', asc ''ml5.js'', asc ''webgl'', asc ''webgpu'', asc ''wasm'',
    asc ''ai integration'', asc ''api integration'', asc ''real-time ai'',
    asc ''streaming ai'', asc ''ai chat'', asc ''ai visualization'',
    asc ''neural network visualization'', asc ''model visualization'', asc ''ai coding'',
    asc ''ai powered'', asc ''machine learning'', asc ''deep learning'',
    asc ''neural network'', asc ''transformer'', asc ''llm'', asc ''large language model'',
    asc ''generative ai'', asc ''artificial intelligence'', asc ''ai model'', asc ''ai tools'',
    asc ''ai workflow'', asc ''ai development tools'']"

definition buildTools_preferred :: "jsstring list" where
  "buildTools_preferred = [
    asc ''vite'', asc ''esbuild'', asc ''swc'']"

definition buildTools_common :: "jsstring list" where
  "buildTools_common = [
    asc ''webpack'', asc ''rollup'', asc ''parcel'', asc ''turbopack'']"

definition buildTools_legacy :: "jsstring list" where
  "buildTools_legacy = [
    asc ''grunt'', asc ''gulp'']"

definition packageManagers_preferred :: "jsstring list" where
  "packageManagers_preferred = [
    asc ''pnpm'']"

definition packageManagers_common :: "jsstring list" where
  "packageManagers_common = [
    asc ''npm'', asc ''yarn'']"

definition packageManagers_legacy :: "jsstring list" where
  "packageManagers_legacy = [
    asc ''bower'']"

definition exclusionPatterns :: "regex list" where
  "exclusionPatterns = [
    DotStar ([0xBAA8, 0xBC14, 0xC77C]) ([0xC571]),
    DotStar ([0xD578, 0xB4DC, 0xD3F0]) ([0xAE30, 0xB2A5]),
    DotStar ([0xC2A4, 0xB9C8, 0xD2B8, 0xD3F0]) ([0xC124, 0xC815]),
    DotStar ([0xC548, 0xB4DC, 0xB85C, 0xC774, 0xB4DC]) ([0xAC1C, 0xBC1C]),
    DotStar (asc ''ios'') ([0xAC1C, 0xBC1C]),
    DotStar ([0xC544, 0xC774, 0xD3F0]) ([0xAE30, 0xB2A5]),
    DotStar ([0xAC24, 0xB7ED, 0xC2DC]) ([0xAE30, 0xB2A5]),
    DotStar (asc ''mobile'') (asc ''app''), DotStar (asc ''android'') (asc ''development''),
    DotStar (asc ''ios'') (asc ''development''), DotStar (asc ''swift'') (asc ''development''),
    DotStar (asc ''kotlin'') (asc ''android''), DotStar (asc ''react'') (asc ''native''),
    DotStar (asc ''flutter'') (asc ''mobile''), DotStar ([0xAC8C, 0xC784]) ([0xAC1C, 0xBC1C]),
    DotStar ([0xAC8C, 0xC784]) ([0xC5D4, 0xC9C4]), DotStar (asc ''unity'') ([0xAC1C, 0xBC1C]),
    DotStar (asc ''unreal'') (asc ''engine''),
    DotStar ([0xAC8C, 0xC784]) ([0xB514, 0xC790, 0xC778]),
    DotStar (asc ''game'') (asc ''development''), DotStar (asc ''game'') (asc ''engine''),
    DotStar (asc ''console'') (asc ''game''), DotStar (asc ''mobile'') (asc ''game''),
    DotStar ([0xD558, 0xB4DC, 0xC6E8, 0xC5B4]) ([0xC124, 0xACC4]),
    DotStar ([0xCE69, 0xC14B]) ([0xC131, 0xB2A5]),
    DotStar ([0xBC30, 0xD130, 0xB9AC]) ([0xAE30, 0xC220]),
    DotStar ([0xD504, 0xB85C, 0xC138, 0xC11C]) ([0xC131, 0xB2A5]),
    DotStar ([0xADF8, 0xB798, 0xD53D]) ([0xCE74, 0xB4DC]),
    DotStar ([0xBA54, 0xBAA8, 0xB9AC]) ([0xC6A9, 0xB7C9]),
    DotStar (asc ''storage'') (asc ''technology''),
    DotStar (asc ''embedded'') (asc ''system''), DotStar (asc ''iot'') (asc ''hardware''),
    DotStar (asc ''sensor'') (asc ''technology''),
    DotStar ([0xAE30, 0xC5C5]) ([0xC18C, 0xC2DD]),
    DotStar ([0xD68C, 0xC0AC]) ([0xB274, 0xC2A4]),
    DotStar ([0xD22C, 0xC790]) ([0xC18C, 0xC2DD]),
    DotStar ([0xC8FC, 0xAC00]) ([0xBCC0, 0xB3D9]),
    DotStar ([0xACBD, 0xC601]) ([0xC804, 0xB7B5]),
    DotStar ([0xB9C8, 0xCF00, 0xD305]) ([0xCEA0, 0xD398, 0xC778]),
    DotStar ([0xBE44, 0xC988, 0xB2C8, 0xC2A4]) ([0xBAA8, 0xB378]),
    DotStar ([0xC5C5, 0xACC4]) ([0xB3D9, 0xD5A5]),
    DotStar ([0xC2DC, 0xC7A5]) ([0xBD84, 0xC11D]),
    DotStar ([0xACBD, 0xC7C1, 0xC0AC]) ([0xBD84, 0xC11D]),
    DotStar ([0xC81C, 0xD488]) ([0xCD9C, 0xC2DC]),
    DotStar ([0xC81C, 0xD488]) ([0xB9AC, 0xBDF0]),
    DotStar ([0xBE0C, 0xB79C, 0xB4DC]) ([0xC804, 0xB7B5]),
    DotStar ([0xCE74, 0xBA54, 0xB77C]) ([0xC131, 0xB2A5]),
    DotStar ([0xB514, 0xC2A4, 0xD50C, 0xB808, 0xC774]) ([0xD488, 0xC9C8]),
    DotStar ([0xC74C, 0xD5A5]) ([0xD488, 0xC9C8]),
    DotStar ([0xC0AC, 0xC6A9]) ([0xD6C4, 0xAE30]),
    DotStar ([0xAD6C, 0xB9E4]) ([0xAC00, 0xC774, 0xB4DC]),
    DotStar ([0xAC00, 0xACA9]) ([0xBE44, 0xAD50])]"

definition discouragedTech_frameworks :: "jsstring list" where
  "discouragedTech_frameworks = [
    asc ''vue.js'', asc ''vue'', asc ''angular'', asc ''svelte'']"

definition discouragedTech_stateManagement :: "jsstring list" where
  "discouragedTech_stateManagement = [
    asc ''recoil'', asc ''redux'', asc ''mobx'']"

definition discouragedTech_styling :: "jsstring list" where
  "discouragedTech_styling = [
    asc ''styled-components'', asc ''emotion'', asc ''css-in-js'']"

definition discouragedTech_bundlers :: "jsstring list" where
  "discouragedTech_bundlers = [
    asc ''webpack'']"

definition discouragedTech_packageManagers :: "jsstring list" where
  "discouragedTech_packageManagers = [
    asc ''yarn'', asc ''npm'']"

definition backendOnlyPatterns :: "regex list" where
  "backendOnlyPatterns = [
    DotStar (asc ''backend'') (asc ''only''), DotStar ([0xC11C, 0xBC84]) (asc ''only''),
    DotStar (asc ''database'') (asc ''only''), DotStar (asc ''infrastructure'') (asc ''only''),
    DotStar (asc ''devops'') (asc ''only''),
    DotStar ([0xC21C, 0xC218]) ([0xBC31, 0xC5D4, 0xB4DC]),
    DotStar ([0xBC31, 0xC5D4, 0xB4DC]) ([0xC804, 0xC6A9])]"

definition eventKeywords :: "jsstring list" where
  "eventKeywords = [
    [0xCEE8, 0xD37C, 0xB7F0, 0xC2A4], [0xBC0B, 0xC5C5], asc ''conference'', asc ''meetup'',
    [0xC774, 0xBCA4, 0xD2B8], asc ''event'', [0xC138, 0xBBF8, 0xB098],
    [0xC6CC, 0xD06C, 0xC0F5], asc ''deview'', asc ''if(kakao)'', asc ''if kakao'', asc ''ndc'',
    [0xCE74, 0xCE74, 0xC624], [0xB124, 0xC774, 0xBC84], [0xAC1C, 0xBC1C, 0xC790]]"

definition devKeywords :: "jsstring list" where
  "devKeywords = [
    [0xAC1C, 0xBC1C], [0xCF54, 0xB4DC], [0xD504, 0xB85C, 0xADF8, 0xB798, 0xBC0D],
    [0xC2DC, 0xC2A4, 0xD15C], [0xC544, 0xD0A4, 0xD14D, 0xCC98], [0xC11C, 0xBE44, 0xC2A4],
    [0xD50C, 0xB7AB, 0xD3FC], [0xAE30, 0xC220], [0xB3C4, 0xAD6C], asc ''dev'', asc ''tech'',
    asc ''code'', asc ''system'', asc ''architecture'', asc ''microservice'', asc ''api'',
    asc ''database'', asc ''docker'', asc ''kubernetes'', asc ''kafka'', asc ''graphql'',
    asc ''rest'', asc ''ci/cd'', asc ''devops'', asc ''cloud'', asc ''service'',
    asc ''application'', asc ''framework'', asc ''library'', asc ''tool'', asc ''development'']"

definition techKeywords :: "jsstring list" where
  "techKeywords = [
    asc ''database'', [0xB370, 0xC774, 0xD130, 0xBCA0, 0xC774, 0xC2A4], asc ''api'']"

definition technicalIndicators :: "jsstring list" where
  "technicalIndicators = [
    asc ''development'', asc ''coding'', asc ''programming'', asc ''implementation'',
    asc ''refactoring'', asc ''optimization'', asc ''debugging'', asc ''testing'',
    [0xAC1C, 0xBC1C], [0xAD6C, 0xD604], [0xCD5C, 0xC801, 0xD654],
    [0xB9AC, 0xD329, 0xD1A0, 0xB9C1], [0xD14C, 0xC2A4, 0xD2B8], asc ''tutorial'',
    asc ''guide'', asc ''how to'', asc ''best practices'', asc ''tips'',
    [0xD29C, 0xD1A0, 0xB9AC, 0xC5BC], [0xAC00, 0xC774, 0xB4DC], [0xBC29, 0xBC95], [0xD301],
    [0xC608, 0xC81C], asc ''architecture'', asc ''pattern'', asc ''design'',
    asc ''performance'', asc ''scalability'', asc ''maintainability'', asc ''reliability'',
    [0xC544, 0xD0A4, 0xD14D, 0xCC98], [0xD328, 0xD134], [0xC124, 0xACC4], [0xC131, 0xB2A5],
    [0xD655, 0xC7A5, 0xC131], asc ''conference'', asc ''meetup'', asc ''workshop'',
    asc ''seminar'', asc ''session'', asc ''summit'', asc ''forum'', asc ''community'',
    asc ''event'', asc ''presentation'', [0xCEE8, 0xD37C, 0xB7F0, 0xC2A4], [0xBC0B, 0xC5C5],
    [0xC6CC, 0xD06C, 0xC0F5], [0xC138, 0xBBF8, 0xB098], [0xC138, 0xC158], [0xC11C, 0xBC0B],
    [0xD3EC, 0xB7FC], [0xCEE4, 0xBBA4, 0xB2C8, 0xD2F0], [0xC774, 0xBCA4, 0xD2B8],
    [0xBC1C, 0xD45C], asc ''deview'', asc ''if kakao'', asc ''ndc'', asc ''pycon'',
    asc ''jsconf'', asc ''spring camp'', asc ''awskrug'', [0xCE74, 0xCE74, 0xC624],
    [0xB124, 0xC774, 0xBC84], [0xB77C, 0xC778], [0xC6B0, 0xC544, 0xCF58],
    [0xC778, 0xD504, 0xCF58], asc ''devfest'', [0xBAA8, 0xC784], [0xAC1C, 0xBC1C, 0xC790]]"

definition detailed_techKeywords :: "jsstring list" where
  "detailed_techKeywords = [
    asc ''database'', [0xB370, 0xC774, 0xD130, 0xBCA0, 0xC774, 0xC2A4], asc ''api'',
    asc ''article'', [0xCEE4, 0xBBA4, 0xB2C8, 0xD2F0], asc ''community'']"

subsection \<open>Category scores\<close>

text \<open>
  Scores are JavaScript numbers, that is IEEE doubles; they are modelled as rationals, so
  the decimal constants of the source are exact and the sums are not rounded. Where the
  double sum of the source falls just below a threshold that the exact sum reaches (0.05,
  0.1, 0.2, 0.25), the comparison of the source and the comparison here differ. No
  property below rests on such a comparison: the articles evaluated have totals of 0,
  9/400, 7/10 and -3/10, away from every threshold.
\<close>

definition fullText_of :: "jsstring \<Rightarrow> jsstring \<Rightarrow> jsstring" where
  "fullText_of title content = title @ asc '' '' @ content"

definition hasExclusionContent :: "jsstring \<Rightarrow> jsstring \<Rightarrow> bool" where
  "hasExclusionContent title content =
     some_pattern exclusionPatterns (fullText_of title content)"

text \<open>
  \<open>ks.forEach(k => { if (title.includes(k)) score += wt; else if (content.includes(k))
  score += wc; })\<close>
\<close>

fun forEach_title_content ::
  "rat \<Rightarrow> rat \<Rightarrow> jsstring \<Rightarrow> jsstring \<Rightarrow> jsstring list \<Rightarrow> rat \<Rightarrow> rat" where
  "forEach_title_content wt wc title content [] score = score"
| "forEach_title_content wt wc title content (k # ks) score =
     forEach_title_content wt wc title content ks
       (if str_includes title k then score + wt
        else if str_includes content k then score + wc
        else score)"

text \<open>\<open>ks.forEach(k => { if (fullText.includes(k)) score += w; })\<close>\<close>

fun forEach_fullText :: "rat \<Rightarrow> jsstring \<Rightarrow> jsstring list \<Rightarrow> rat \<Rightarrow> rat" where
  "forEach_fullText w fullText [] score = score"
| "forEach_fullText w fullText (k # ks) score =
     forEach_fullText w fullText ks (if str_includes fullText k then score + w else score)"

definition getProjectTechScore :: "jsstring \<Rightarrow> jsstring \<Rightarrow> rat" where
  "getProjectTechScore title content =
     (let titleWeight = 3; contentWeight = 1;
          score = forEach_title_content (2.0 * titleWeight) (2.0 * contentWeight)
                    title content projectTechStack_primary 0;
          score = forEach_title_content (1.5 * titleWeight) (1.5 * contentWeight)
                    title content projectTechStack_secondary score
      in min (score / 4) 1.0)"

definition getFrontendTechScore :: "jsstring \<Rightarrow> jsstring \<Rightarrow> rat" where
  "getFrontendTechScore title content =
     (let titleWeight = 2; contentWeight = 1;
          score = forEach_title_content (1.0 * titleWeight) (1.0 * contentWeight)
                    title content webFrontendTech_high 0;
          score = forEach_title_content (0.7 * titleWeight) (0.7 * contentWeight)
                    title content webFrontendTech_medium score;
          score = forEach_title_content (0.4 * titleWeight) (0.4 * contentWeight)
                    title content webFrontendTech_low score
      in min (score / 3) 1.0)"

definition getAiFrontendScore :: "jsstring \<Rightarrow> jsstring \<Rightarrow> rat" where
  "getAiFrontendScore title content =
     (let titleWeight = 2; contentWeight = 1;
          score = forEach_title_content (1.0 * titleWeight) (1.0 * contentWeight)
                    title content aiFrontendTech_high 0;
          score = forEach_title_content (0.6 * titleWeight) (0.6 * contentWeight)
                    title content aiFrontendTech_medium score
      in min (score / 2) 1.0)"

definition codeMarkers :: "jsstring list" where
  "codeMarkers = [asc ''```'', asc ''<code>'', asc ''function'', asc ''const'',
     asc ''import'', asc ''export'']"

definition getTechnicalContextScore :: "jsstring \<Rightarrow> jsstring \<Rightarrow> rat" where
  "getTechnicalContextScore title content =
     (let fullText = fullText_of title content;
          score = forEach_fullText 0.15 fullText technicalIndicators 0;
          score = (if some_included codeMarkers content then score + 0.5 else score)
      in min score 1.0)"

definition getToolsScore :: "jsstring \<Rightarrow> jsstring \<Rightarrow> rat" where
  "getToolsScore title content =
     (let fullText = fullText_of title content;
          score = forEach_fullText 0.8 fullText buildTools_preferred 0;
          score = forEach_fullText 0.6 fullText packageManagers_preferred score;
          score = forEach_fullText 0.4 fullText buildTools_common score;
          score = forEach_fullText 0.3 fullText packageManagers_common score
      in min score 1.0)"

definition getDiscouragementPenalty :: "jsstring \<Rightarrow> jsstring \<Rightarrow> rat" where
  "getDiscouragementPenalty title content =
     (let fullText = fullText_of title content;
          penalty = forEach_fullText (- 0.3) fullText discouragedTech_frameworks 0;
          penalty = forEach_fullText (- 0.2) fullText discouragedTech_stateManagement penalty;
          penalty = forEach_fullText (- 0.2) fullText discouragedTech_styling penalty;
          penalty = forEach_fullText (- 0.1) fullText discouragedTech_bundlers penalty
      in penalty)"

definition weightedSum :: "jsstring \<Rightarrow> jsstring \<Rightarrow> rat" where
  "weightedSum title content =
     getProjectTechScore title content * 0.40
     + getFrontendTechScore title content * 0.30
     + getAiFrontendScore title content * 0.20
     + getTechnicalContextScore title content * 0.15
     + getToolsScore title content * 0.10
     + getDiscouragementPenalty title content"

subsection \<open>The two entry points\<close>

record article =
  title :: jsval
  contentEncoded :: jsval
  summary :: jsval
  content :: jsval
  description :: jsval

text \<open>\<open>(article.title || '').toLowerCase()\<close>\<close>

definition title_text :: "(jsstring \<Rightarrow> jsstring) \<Rightarrow> article \<Rightarrow> error + jsstring" where
  "title_text lc article = toLowerCase lc (js_or (title article) (JString []))"

text \<open>
  \<open>(article.contentEncoded || article.summary || article.content || '').toLowerCase()\<close>,
  the content read by \<open>isRelevantContent\<close>
\<close>

definition content_text :: "(jsstring \<Rightarrow> jsstring) \<Rightarrow> article \<Rightarrow> error + jsstring" where
  "content_text lc article =
     toLowerCase lc
       (js_or (js_or (js_or (contentEncoded article) (summary article)) (content article))
          (JString []))"

text \<open>
  The content read by \<open>getDetailedFilterResult\<close>, which also falls back to
  \<open>article.description\<close>
\<close>

definition detailed_content_text ::
  "(jsstring \<Rightarrow> jsstring) \<Rightarrow> article \<Rightarrow> error + jsstring" where
  "detailed_content_text lc article =
     toLowerCase lc
       (js_or (js_or (js_or (js_or (contentEncoded article) (summary article))
                 (content article)) (description article)) (JString []))"

datatype decision = EXCLUDED | PASS | REJECT

record breakdown =
  project :: rat
  frontend :: rat
  ai :: rat
  contextScore :: rat
  tools :: rat
  penalty :: rat
  autoApproved :: "string option"

datatype details = Reason string | Scores breakdown

definition scores_of :: "jsstring \<Rightarrow> jsstring \<Rightarrow> breakdown" where
  "scores_of t c = \<lparr>project = getProjectTechScore t c, frontend = getFrontendTechScore t c,
     ai = getAiFrontendScore t c, contextScore = getTechnicalContextScore t c,
     tools = getToolsScore t c, penalty = getDiscouragementPenalty t c,
     autoApproved = None\<rparr>"

text \<open>One call of \<open>logFilterResult(title, score, decision, details)\<close>.\<close>

record log_entry =
  log_score :: rat
  log_decision :: decision
  log_details :: details

definition constAssignment :: error where
  "constAssignment = TypeError ''Assignment to constant variable.''"

text \<open>
  \<open>isRelevantContent(article)\<close> of a filter whose field \<open>isLenientSource\<close> is the given
  flag. The result is the raised error, or the lines written to the log and the returned
  boolean. \<open>totalScore\<close> is declared with \<open>const\<close>: the two statements
  \<open>totalScore = Math.max(totalScore, 0.1)\<close> of the lenient branch raise a TypeError when
  they are reached.
\<close>

definition isRelevantContent ::
  "(jsstring \<Rightarrow> jsstring) \<Rightarrow> bool \<Rightarrow> article \<Rightarrow> error + (log_entry list \<times> bool)" where
  "isRelevantContent lc isLenientSource article =
     (case title_text lc article of
        Inl e \<Rightarrow> Inl e
      | Inr title' \<Rightarrow>
     (case content_text lc article of
        Inl e \<Rightarrow> Inl e
      | Inr content' \<Rightarrow>
        if hasExclusionContent title' content' then
          Inr ([\<lparr>log_score = 0, log_decision = EXCLUDED,
                 log_details = Reason ''Explicit exclusion pattern matched''\<rparr>], False)
        else
          let totalScore = max 0 (weightedSum title' content');
              fullText = fullText_of title' content';
              final = (\<lambda>threshold.
                 let isRelevant = (totalScore \<ge> threshold)
                 in Inr (if totalScore \<ge> 0.2
                         then [\<lparr>log_score = totalScore,
                                 log_decision = (if isRelevant then PASS else REJECT),
                                 log_details = Scores (scores_of title' content')\<rparr>]
                         else [], isRelevant))
          in if isLenientSource then
               if some_pattern backendOnlyPatterns fullText then
                 Inr ([\<lparr>log_score = totalScore, log_decision = EXCLUDED,
                        log_details = Reason ''Backend-only content for lenient source''\<rparr>],
                      False)
               else if list_ex (\<lambda>keyword. str_includes (lc fullText) (lc keyword)) eventKeywords
               then
                 Inr ([\<lparr>log_score = max totalScore 0.5, log_decision = PASS,
                        log_details = Reason ''Conference/meetup content auto-approved''\<rparr>],
                      True)
               else if some_included devKeywords fullText \<and> totalScore < 0.1 then
                 Inl constAssignment
               else if some_included techKeywords fullText \<and> totalScore < 0.1 then
                 Inl constAssignment
               else final 0.05
             else final 0.25))"

text \<open>The object returned by \<open>getDetailedFilterResult\<close>; \<open>decision\<close> is an optional field.\<close>

record filter_result =
  isRelevant :: bool
  score :: rat
  decision :: "decision option"
  details :: details

definition getDetailedFilterResult ::
  "(jsstring \<Rightarrow> jsstring) \<Rightarrow> bool \<Rightarrow> article \<Rightarrow> error + filter_result" where
  "getDetailedFilterResult lc isLenientSource article =
     (case title_text lc article of
        Inl e \<Rightarrow> Inl e
      | Inr title' \<Rightarrow>
     (case detailed_content_text lc article of
        Inl e \<Rightarrow> Inl e
      | Inr content' \<Rightarrow>
        let fullText = fullText_of title' content' in
        if hasExclusionContent title' content' then
          Inr \<lparr>isRelevant = False, score = 0, decision = Some EXCLUDED,
               details = Reason ''Explicit exclusion pattern matched''\<rparr>
        else if isLenientSource
                \<and> list_ex (\<lambda>keyword. str_includes (lc fullText) (lc keyword)) eventKeywords then
          Inr \<lparr>isRelevant = True, score = 0.8, decision = None,
               details = Scores \<lparr>project = 0, frontend = 0, ai = 0, contextScore = 0.8, tools = 0,
                 penalty = 0, autoApproved = Some ''Conference/meetup content''\<rparr>\<rparr>
        else if isLenientSource \<and> some_pattern backendOnlyPatterns fullText then
          Inr \<lparr>isRelevant = False, score = 0, decision = None,
               details = Reason ''Backend-only content for lenient source''\<rparr>
        else
          let totalScore = weightedSum title' content';
              threshold = (if isLenientSource then 0.05 else 0.25);
              totalScore =
                (if isLenientSource \<and> some_included devKeywords fullText \<and> totalScore < 0.1
                 then max totalScore 0.1 else totalScore);
              totalScore =
                (if isLenientSource \<and> some_included detailed_techKeywords fullText
                    \<and> totalScore < 0.1
                 then max totalScore 0.1 else totalScore)
          in Inr \<lparr>isRelevant = (totalScore \<ge> threshold), score = totalScore,
                  decision = None, details = Scores (scores_of title' content')\<rparr>))"


text \<open>An article that has a title and no other field.\<close>

definition titled :: "string \<Rightarrow> article" where
  "titled s = \<lparr>title = JString (asc s), contentEncoded = JUndefined, summary = JUndefined,
     content = JUndefined, description = JUndefined\<rparr>"

text \<open>
  Two articles about React Native under a title about React hooks: one with the text in
  \<open>content\<close> behind an empty \<open>contentEncoded\<close> and a null \<open>summary\<close>, one with the
  text in \<open>description\<close> alone.
\<close>

definition reviewed_in_body :: article where
  "reviewed_in_body =
     \<lparr>title = JString (asc ''React Hooks''), contentEncoded = JString [], summary = JNull,
      content = JString (asc ''React Native mobile app''), description = JUndefined\<rparr>"

definition reviewed_in_description :: article where
  "reviewed_in_description =
     \<lparr>title = JString (asc ''React Hooks''), contentEncoded = JUndefined,
      summary = JUndefined, content = JUndefined,
      description = JString (asc ''React Native mobile app'')\<rparr>"


section \<open>The daily cache (DailyCache)\<close>

text \<open>
  A JavaScript \<open>Set\<close> is a duplicate-free list in insertion order, a \<open>Map\<close> an
  association list in insertion order.
\<close>

definition Set_has :: "'a list \<Rightarrow> 'a \<Rightarrow> bool" where
  "Set_has s x = (x \<in> set s)"

definition Set_add :: "'a list \<Rightarrow> 'a \<Rightarrow> 'a list" where
  "Set_add s x = (if x \<in> set s then s else s @ [x])"

definition Set_of :: "'a list \<Rightarrow> 'a list" where
  "Set_of xs = foldl Set_add [] xs"

definition Map_has :: "('k \<times> 'v) list \<Rightarrow> 'k \<Rightarrow> bool" where
  "Map_has m k = (map_of m k \<noteq> None)"

fun Map_set :: "('k \<times> 'v) list \<Rightarrow> 'k \<Rightarrow> 'v \<Rightarrow> ('k \<times> 'v) list" where
  "Map_set [] k v = [(k, v)]"
| "Map_set (p # ps) k v = (if fst p = k then (k, v) # ps else p # Map_set ps k v)"

text \<open>
  The backing file \<open>rss-daily-cache.json\<close>: absent, unreadable as JSON, or a document
  that maps day keys to arrays of identifiers.
\<close>

datatype 'id disk = Missing | Corrupt | Document "(string \<times> 'id list) list"

text \<open>
  The cache object together with the file system it reads and writes. \<open>cacheMode\<close> is
  the string the source compares with \<open>'bypass'\<close> and \<open>'file'\<close>; \<open>writable\<close> says
  whether writing the file succeeds (a failed write is caught and logged).
\<close>

record 'id DailyCache =
  cacheMode :: string
  dailyCache :: "(string \<times> 'id list) list"
  cacheFile :: "'id disk"
  writable :: bool

record cache_options =
  opt_cacheMode :: "string option"
  opt_bypassCache :: bool

text \<open>
  \<open>determineCacheMode(options)\<close>; \<open>argvOnce\<close> is \<open>process.argv.includes('--once')\<close>
  and \<open>envCI\<close> is \<open>process.env.CI === 'true'\<close>.
\<close>

definition determineCacheMode :: "cache_options \<Rightarrow> bool \<Rightarrow> bool \<Rightarrow> string" where
  "determineCacheMode options argvOnce envCI =
     (case opt_cacheMode options of
        Some m \<Rightarrow> if m \<noteq> [] then m
                  else if opt_bypassCache options \<or> argvOnce then ''bypass''
                  else if envCI then ''file'' else ''memory''
      | None \<Rightarrow> if opt_bypassCache options \<or> argvOnce then ''bypass''
                else if envCI then ''file'' else ''memory'')"

text \<open>
  Every operation reads the clock through \<open>getTodayKey()\<close>; its result, the day key of
  the moment of the call, is the parameter \<open>today\<close>.
\<close>

definition loadFromFile :: "string \<Rightarrow> 'id DailyCache \<Rightarrow> 'id DailyCache" where
  "loadFromFile today c =
     (case cacheFile c of
        Missing \<Rightarrow> c
      | Corrupt \<Rightarrow> c
      | Document data \<Rightarrow>
          (case map_of data today of
             None \<Rightarrow> c
           | Some ids \<Rightarrow> c\<lparr>dailyCache := Map_set (dailyCache c) today (Set_of ids)\<rparr>))"

text \<open>\<open>new DailyCache(domainName, options)\<close> on a file system in the given state.\<close>

definition new_DailyCache ::
  "cache_options \<Rightarrow> bool \<Rightarrow> bool \<Rightarrow> string \<Rightarrow> 'id disk \<Rightarrow> bool \<Rightarrow> 'id DailyCache" where
  "new_DailyCache options argvOnce envCI today file w =
     (let c = \<lparr>cacheMode = determineCacheMode options argvOnce envCI, dailyCache = [],
                cacheFile = file, writable = w\<rparr>
      in if cacheMode c = ''file'' then loadFromFile today c else c)"

definition saveToFile :: "'id DailyCache \<Rightarrow> 'id DailyCache" where
  "saveToFile c =
     (if cacheMode c \<noteq> ''file'' then c
      else if writable c then c\<lparr>cacheFile := Document (dailyCache c)\<rparr>
      else c)"

text \<open>\<open>getTodayCache()\<close> creates today's set when it is missing.\<close>

definition getTodayCache :: "string \<Rightarrow> 'id DailyCache \<Rightarrow> 'id DailyCache" where
  "getTodayCache today c =
     (if \<not> Map_has (dailyCache c) today
      then c\<lparr>dailyCache := Map_set (dailyCache c) today []\<rparr>
      else c)"

text \<open>The set that \<open>getTodayCache()\<close> returns, read from the state.\<close>

definition todaySet :: "string \<Rightarrow> 'id DailyCache \<Rightarrow> 'id list" where
  "todaySet today c = (case map_of (dailyCache c) today of None \<Rightarrow> [] | Some s \<Rightarrow> s)"

text \<open>\<open>todayCache.add(postId)\<close> on the set of today.\<close>

definition todayCache_add :: "string \<Rightarrow> 'id DailyCache \<Rightarrow> 'id \<Rightarrow> 'id DailyCache" where
  "todayCache_add today c postId =
     c\<lparr>dailyCache := Map_set (dailyCache c) today (Set_add (todaySet today c) postId)\<rparr>"

definition hasSent :: "'id \<Rightarrow> bool \<Rightarrow> string \<Rightarrow> 'id DailyCache \<Rightarrow> bool \<times> 'id DailyCache" where
  "hasSent postId bypassCache today c =
     (if cacheMode c = ''bypass'' \<or> bypassCache then (False, c)
      else let c1 = getTodayCache today c
           in (Set_has (todaySet today c1) postId, c1))"

definition markAsSent :: "'id \<Rightarrow> bool \<Rightarrow> string \<Rightarrow> 'id DailyCache \<Rightarrow> 'id DailyCache" where
  "markAsSent postId bypassCache today c =
     (if cacheMode c = ''bypass'' \<or> (bypassCache \<and> cacheMode c \<noteq> ''file'') then c
      else let c1 = getTodayCache today c;
               c2 = todayCache_add today c1 postId
           in if cacheMode c2 = ''file'' then saveToFile c2 else c2)"

definition filterNewPosts ::
  "'p list \<Rightarrow> ('p \<Rightarrow> 'id) \<Rightarrow> bool \<Rightarrow> bool \<Rightarrow> string \<Rightarrow> 'id DailyCache
     \<Rightarrow> 'p list \<times> 'id DailyCache" where
  "filterNewPosts posts getPostId bypassCache markAsProcessed today c =
     (if cacheMode c = ''bypass'' \<or> (bypassCache \<and> cacheMode c \<noteq> ''file'') then (posts, c)
      else
        let c1 = getTodayCache today c;
            todayCache = todaySet today c1;
            newPosts = filter (\<lambda>post. \<not> Set_has todayCache (getPostId post)) posts
        in if markAsProcessed \<and> length newPosts > 0 then
             let c2 = foldl (\<lambda>c post. todayCache_add today c (getPostId post)) c1 newPosts
             in (newPosts, if cacheMode c2 = ''file'' then saveToFile c2 else c2)
           else (newPosts, c1))"

definition markMultipleAsSent ::
  "'p list \<Rightarrow> ('p \<Rightarrow> 'id) \<Rightarrow> string \<Rightarrow> 'id DailyCache \<Rightarrow> 'id DailyCache" where
  "markMultipleAsSent posts getPostId today c =
     foldl (\<lambda>c post. todayCache_add today c (getPostId post)) (getTodayCache today c) posts"

text \<open>\<open>getTodayStats().cachedCount\<close>\<close>

definition cachedCount :: "string \<Rightarrow> 'id DailyCache \<Rightarrow> nat" where
  "cachedCount today c = length (todaySet today c)"

text \<open>\<open>cleanupOldCache()\<close>: every day but today is deleted; the number deleted is returned.\<close>

definition cleanupOldCache :: "string \<Rightarrow> 'id DailyCache \<Rightarrow> nat \<times> 'id DailyCache" where
  "cleanupOldCache today c =
     (length (filter (\<lambda>p. fst p \<noteq> today) (dailyCache c)),
      c\<lparr>dailyCache := filter (\<lambda>p. fst p = today) (dailyCache c)\<rparr>)"


section \<open>The dispatcher of one source\<close>

subsection \<open>Fetching (BaseArticleService.getRecentArticles)\<close>

text \<open>
  The feed and the messenger are collaborators. \<open>parseFeed()\<close> either throws or returns
  the feed items; \<open>isToday\<close> is the date test of the filter and \<open>normalizeArticle\<close> the
  parser's normalisation, which may throw as well. The whole body of
  \<open>getRecentArticles\<close> is inside \<open>try\<close>, and the handler returns the empty list.
\<close>

record post =
  url :: string

fun mapE :: "('a \<Rightarrow> error + 'b) \<Rightarrow> 'a list \<Rightarrow> error + 'b list" where
  "mapE f [] = Inr []"
| "mapE f (x # xs) =
     (case f x of
        Inl e \<Rightarrow> Inl e
      | Inr y \<Rightarrow> (case mapE f xs of Inl e \<Rightarrow> Inl e | Inr ys \<Rightarrow> Inr (y # ys)))"

definition getRecentArticles ::
  "(error + 'i list) \<Rightarrow> ('i \<Rightarrow> bool) \<Rightarrow> ('i \<Rightarrow> error + post) \<Rightarrow> post list" where
  "getRecentArticles parseFeed isToday normalizeArticle =
     (case parseFeed of
        Inl e \<Rightarrow> []
      | Inr items \<Rightarrow>
          let recentArticles = filter isToday items
          in if length recentArticles > 0
             then (case mapE normalizeArticle recentArticles of Inl e \<Rightarrow> [] | Inr as \<Rightarrow> as)
             else [])"

subsection \<open>The scheduler object (BaseScheduler, KofeArticleScheduler)\<close>

record stats =
  totalRuns :: nat
  successfulRuns :: nat
  failedRuns :: nat
  articlesProcessed :: nat

text \<open>
  The fields of a scheduler that its methods read and write, with the state \<open>'m\<close> of the
  messenger it sends through. \<open>messenger.sendArticle(article)\<close> resolves (\<open>Inr\<close>) or
  throws (\<open>Inl\<close>) and moves the messenger to a new state.
\<close>

record 'm scheduler =
  isRunning :: bool
  isManualRunning :: bool
  bypassCache :: bool
  stats :: stats
  cache :: "string DailyCache"
  messenger :: 'm

type_synonym 'm sendArticle = "post \<Rightarrow> 'm \<Rightarrow> (error + unit) \<times> 'm"

text \<open>The object a run returns; the two early returns have no field \<open>failed\<close>.\<close>

record run_result =
  success :: bool
  articlesFound :: nat
  messagesSent :: nat
  failed :: "nat option"

text \<open>
  The \<open>for\<close> loop of \<open>executeArticleCheck\<close> over the unseen articles, with the two
  counters. \<open>n\<close> is \<open>newArticles.length\<close>; the pause after a success changes no state.
\<close>

fun sendLoop ::
  "'m sendArticle \<Rightarrow> string \<Rightarrow> post list \<Rightarrow> nat \<times> nat \<times> 'm scheduler
     \<Rightarrow> nat \<times> nat \<times> 'm scheduler" where
  "sendLoop sendArticle today [] (successCount, failCount, s) = (successCount, failCount, s)"
| "sendLoop sendArticle today (article # rest) (successCount, failCount, s) =
     (case sendArticle article (messenger s) of
        (Inr u, m) \<Rightarrow>
          sendLoop sendArticle today rest
            (successCount + 1, failCount,
             s\<lparr>messenger := m,
               cache := markAsSent (url article) (bypassCache s) today (cache s),
               stats := (stats s)\<lparr>articlesProcessed := articlesProcessed (stats s) + 1\<rparr>\<rparr>)
      | (Inl e, m) \<Rightarrow>
          sendLoop sendArticle today rest (successCount, failCount + 1, s\<lparr>messenger := m\<rparr>))"

text \<open>
  \<open>KofeArticleScheduler.executeArticleCheck\<close>; \<open>articles\<close> is what
  \<open>articleService.getRecentArticles()\<close> returned.
\<close>

definition executeArticleCheck ::
  "'m sendArticle \<Rightarrow> string \<Rightarrow> post list \<Rightarrow> 'm scheduler \<Rightarrow> run_result \<times> 'm scheduler" where
  "executeArticleCheck sendArticle today articles s =
     (if length articles = 0 then
        (\<lparr>success = True, articlesFound = 0, messagesSent = 0, failed = None\<rparr>, s)
      else
        let (newArticles, c) =
              filterNewPosts articles url (bypassCache s) True today (cache s);
            s1 = s\<lparr>cache := c\<rparr>
        in if length newArticles = 0 then
             (\<lparr>success = True, articlesFound = length articles, messagesSent = 0,
               failed = None\<rparr>, s1)
           else
             let (successCount, failCount, s2) = sendLoop sendArticle today newArticles (0, 0, s1)
             in (\<lparr>success = True, articlesFound = length articles,
                   messagesSent = successCount, failed = Some failCount\<rparr>, s2))"

text \<open>
  \<open>BaseScheduler.executeJob(triggerType)\<close> when the awaited \<open>executeArticleCheck\<close>
  runs to its end without another task of the same scheduler in between. \<open>check\<close> is the
  subclass's \<open>executeArticleCheck\<close>; \<open>Inr None\<close> is the return without a value of a
  skipped scheduled run.
\<close>

definition executeJob ::
  "('m scheduler \<Rightarrow> (error + run_result) \<times> 'm scheduler) \<Rightarrow> string \<Rightarrow> 'm scheduler
     \<Rightarrow> (error + run_result option) \<times> 'm scheduler" where
  "executeJob check triggerType s =
     (if isRunning s \<and> triggerType = ''scheduled'' then (Inr None, s)
      else
        let s1 = s\<lparr>isRunning := True, stats := (stats s)\<lparr>totalRuns := totalRuns (stats s) + 1\<rparr>\<rparr>
        in case check s1 of
             (Inr result, s2) \<Rightarrow>
               (Inr (Some result),
                s2\<lparr>stats := (stats s2)\<lparr>successfulRuns := successfulRuns (stats s2) + 1\<rparr>,
                   isRunning := False\<rparr>)
           | (Inl e, s2) \<Rightarrow>
               (Inl e,
                s2\<lparr>stats := (stats s2)\<lparr>failedRuns := failedRuns (stats s2) + 1\<rparr>,
                   isRunning := False\<rparr>))"

text \<open>
  \<open>runManualCheck(bypassCache)\<close> of a scheduler with no run in flight (the \<open>--once\<close>
  executor calls each scheduler once). With a run in flight the call polls until that run
  ends, which no step of this call brings about: the result is \<open>None\<close>.
\<close>

definition runManualCheck ::
  "('m scheduler \<Rightarrow> (error + run_result) \<times> 'm scheduler) \<Rightarrow> bool \<Rightarrow> 'm scheduler
     \<Rightarrow> ((error + run_result option) \<times> 'm scheduler) option" where
  "runManualCheck check b s =
     (if isRunning s then None
      else
        let s1 = s\<lparr>isManualRunning := True, bypassCache := b\<rparr>;
            (r, s2) = executeJob check ''manual'' s1
        in Some (r, s2\<lparr>isManualRunning := False, bypassCache := False\<rparr>))"

text \<open>One run of a Korean FE Article scheduler: fetch, then the check.\<close>

definition kofe_check ::
  "(error + 'i list) \<Rightarrow> ('i \<Rightarrow> bool) \<Rightarrow> ('i \<Rightarrow> error + post) \<Rightarrow> 'm sendArticle \<Rightarrow> string
     \<Rightarrow> 'm scheduler \<Rightarrow> (error + run_result) \<times> 'm scheduler" where
  "kofe_check parseFeed isToday normalizeArticle sendArticle today s =
     (let (r, s') = executeArticleCheck sendArticle today
                      (getRecentArticles parseFeed isToday normalizeArticle) s
      in (Inr r, s'))"

text \<open>A scheduler as its constructor leaves it.\<close>

definition new_scheduler :: "string DailyCache \<Rightarrow> 'm \<Rightarrow> 'm scheduler" where
  "new_scheduler c m =
     \<lparr>isRunning = False, isManualRunning = False, bypassCache = False,
      stats = \<lparr>totalRuns = 0, successfulRuns = 0, failedRuns = 0, articlesProcessed = 0\<rparr>,
      cache = c, messenger = m\<rparr>"


section \<open>The batch orchestrator (BatchProcessor, OnceExecutor)\<close>

text \<open>
  What the awaited \<open>scheduler.runManualCheck(...)\<close> of a service does: it returns a
  value, it throws, or it is still pending when the timeout of \<open>timeoutMs\<close> expires.
\<close>

datatype 'r behaviour = Returns 'r | Throws string | Hangs

text \<open>
  A loaded service: its name, the behaviour of its run, and the time
  \<open>performance.now() - startTime\<close> that \<open>executeService\<close> measures.
\<close>

record service =
  name :: string
  run :: "run_result option behaviour"
  elapsed :: rat

text \<open>The object \<open>executeService\<close> returns.\<close>

record execution =
  ex_success :: bool
  ex_service :: string
  ex_result :: "run_result option"
  ex_error :: "string option"
  ex_duration :: rat

text \<open>
  \<open>executeService(service)\<close> catches what the run throws; \<open>None\<close> is the promise that
  is still pending at the timeout. The replacement of \<open>serviceModule.cache\<close> in a dry
  run is left out: the scheduler reads its own field \<open>cache\<close>.
\<close>

definition executeService :: "service \<Rightarrow> execution option" where
  "executeService svc =
     (case run svc of
        Returns result \<Rightarrow>
          Some \<lparr>ex_success = True, ex_service = name svc, ex_result = result,
                ex_error = None, ex_duration = elapsed svc\<rparr>
      | Throws msg \<Rightarrow>
          Some \<lparr>ex_success = False, ex_service = name svc, ex_result = None,
                ex_error = Some msg, ex_duration = elapsed svc\<rparr>
      | Hangs \<Rightarrow> None)"

text \<open>An entry of \<open>Promise.allSettled\<close>.\<close>

datatype 'v settled = Fulfilled 'v | Rejected string

text \<open>
  \<open>#executeWithTimeout(fn, item, timeoutMs)\<close>: the race of \<open>fn(item)\<close> against a timer
  that rejects with the error whose message is \<open>timeoutMessage\<close>.
\<close>

definition executeWithTimeout :: "string \<Rightarrow> service \<Rightarrow> execution settled" where
  "executeWithTimeout timeoutMessage svc =
     (case executeService svc of
        Some v \<Rightarrow> Fulfilled v
      | None \<Rightarrow> Rejected timeoutMessage)"

text \<open>\<open>items.slice(start, stop)\<close> with JavaScript's treatment of negative indices.\<close>

definition slice :: "'a list \<Rightarrow> int \<Rightarrow> int \<Rightarrow> 'a list" where
  "slice xs start stop =
     (let n = int (length xs);
          from = (if start < 0 then max (n + start) 0 else min start n);
          to = (if stop < 0 then max (n + stop) 0 else min stop n)
      in take (nat (to - from)) (drop (nat from) xs))"

text \<open>
  The loop \<open>for (let i = 0; i < items.length; i += batchSize)\<close> of
  \<open>processInBatches\<close>. Each batch is settled as a whole before the next one starts; the
  progress callback and the pause between batches change no state. The loop does not
  end when \<open>batchSize\<close> is not positive, so the result is an option.
\<close>

partial_function (option) batchLoop ::
  "('a \<Rightarrow> 'b) \<Rightarrow> int \<Rightarrow> 'a list \<Rightarrow> int \<Rightarrow> 'b list \<Rightarrow> 'b list option" where
  "batchLoop processFn batchSize items i results =
     (if i < int (length items) then
        let batch = slice items i (i + batchSize);
            batchResults = map processFn batch
        in batchLoop processFn batchSize items (i + batchSize) (results @ batchResults)
      else Some results)"

definition processInBatches :: "'a list \<Rightarrow> ('a \<Rightarrow> 'b) \<Rightarrow> int \<Rightarrow> 'b list option" where
  "processInBatches items processFn batchSize = batchLoop processFn batchSize items 0 []"

text \<open>A row of \<open>results.details\<close> and the aggregate \<open>results\<close> of the executor.\<close>

record detail =
  detail_service :: string
  detail_success :: bool
  detail_articlesFound :: nat
  detail_messagesSent :: nat
  detail_duration :: rat
  detail_error :: "string option"

record results =
  results_total :: nat
  results_success :: nat
  results_failed :: nat
  results_articlesFound :: nat
  results_messagesSent :: nat
  results_details :: "detail list"

text \<open>
  The fallback text of \<open>analyzeResults\<close> for a rejection without a message (a Korean
  literal in the source, given here in English).
\<close>

definition unknownError :: string where
  "unknownError = ''unknown error''"

text \<open>The body of the \<open>forEach\<close> of \<open>analyzeResults\<close>.\<close>

definition analyzeResult :: "results \<Rightarrow> execution settled \<Rightarrow> results" where
  "analyzeResult R result =
     (case result of
        Fulfilled v \<Rightarrow>
          if ex_success v then
            let found = (case ex_result v of None \<Rightarrow> 0 | Some r \<Rightarrow> articlesFound r);
                sent = (case ex_result v of None \<Rightarrow> 0 | Some r \<Rightarrow> messagesSent r)
            in R\<lparr>results_success := results_success R + 1,
                 results_articlesFound := results_articlesFound R + found,
                 results_messagesSent := results_messagesSent R + sent,
                 results_details := results_details R @
                   [\<lparr>detail_service = ex_service v, detail_success = True,
                     detail_articlesFound = found, detail_messagesSent = sent,
                     detail_duration = ex_duration v, detail_error = None\<rparr>]\<rparr>
          else
            R\<lparr>results_failed := results_failed R + 1,
              results_details := results_details R @
                [\<lparr>detail_service = ex_service v, detail_success = False,
                  detail_articlesFound = 0, detail_messagesSent = 0,
                  detail_duration = ex_duration v, detail_error = ex_error v\<rparr>]\<rparr>
      | Rejected reason \<Rightarrow>
          R\<lparr>results_failed := results_failed R + 1,
            results_details := results_details R @
              [\<lparr>detail_service = ''Unknown'', detail_success = False,
                detail_articlesFound = 0, detail_messagesSent = 0, detail_duration = 0,
                detail_error = Some (if reason \<noteq> [] then reason else unknownError)\<rparr>]\<rparr>)"

definition analyzeResults :: "results \<Rightarrow> execution settled list \<Rightarrow> results" where
  "analyzeResults R rs = foldl analyzeResult R rs"

text \<open>
  \<open>executeAllServicesInParallel()\<close> of a new executor: the aggregate after all batches,
  or \<open>None\<close> when the batch loop does not end.
\<close>

definition executeAllServicesInParallel ::
  "service list \<Rightarrow> int \<Rightarrow> string \<Rightarrow> results option" where
  "executeAllServicesInParallel loadedServices batchSize timeoutMessage =
     (case processInBatches loadedServices (executeWithTimeout timeoutMessage) batchSize of
        None \<Rightarrow> None
      | Some rs \<Rightarrow>
          Some (analyzeResults
                  \<lparr>results_total = length loadedServices, results_success = 0,
                   results_failed = 0, results_articlesFound = 0, results_messagesSent = 0,
                   results_details = []\<rparr> rs))"

text \<open>
  A source served by a Korean FE Article scheduler: the feed and the messenger it talks
  to, the scheduler object, and whether its run outlasts the timeout.
\<close>

record ('i, 'm) source =
  src_name :: string
  src_parseFeed :: "error + 'i list"
  src_isToday :: "'i \<Rightarrow> bool"
  src_normalizeArticle :: "'i \<Rightarrow> error + post"
  src_sendArticle :: "'m sendArticle"
  src_scheduler :: "'m scheduler"
  src_timesOut :: bool
  src_elapsed :: rat

fun message :: "error \<Rightarrow> string" where
  "message (TypeError m) = m"
| "message (Error m) = m"

text \<open>The service module of such a source, as the executor sees it.\<close>

definition service_of :: "string \<Rightarrow> bool \<Rightarrow> ('i, 'm) source \<Rightarrow> service" where
  "service_of today isOnceMode src =
     \<lparr>name = src_name src,
      run = (if src_timesOut src then Hangs
             else case runManualCheck
                         (kofe_check (src_parseFeed src) (src_isToday src)
                            (src_normalizeArticle src) (src_sendArticle src) today)
                         isOnceMode (src_scheduler src) of
                    None \<Rightarrow> Hangs
                  | Some (Inr r, s) \<Rightarrow> Returns r
                  | Some (Inl e, s) \<Rightarrow> Throws (message e)),
      elapsed = src_elapsed src\<rparr>"


section \<open>Overlapping calls on one scheduler\<close>

text \<open>
  The process runs one task at a time and switches tasks only at an \<open>await\<close>. A call of
  \<open>executeScheduledJob\<close> or \<open>runManualCheck\<close> is therefore a sequence of atomic
  segments, and the calls on one scheduler interleave segment by segment:
  \<^item> \<open>Tick\<close>: the cron callback calls \<open>executeScheduledJob()\<close>, which runs up to the
    \<open>await\<close> of \<open>executeArticleCheck\<close> or returns at one of the two guards;
  \<^item> \<open>ManualCall b\<close>: \<open>runManualCheck(b)\<close> is called and runs up to its first
    \<open>await\<close>, that of \<open>sleep\<close> or that of \<open>executeArticleCheck\<close>;
  \<^item> \<open>Poll i\<close>: the \<open>sleep\<close> of the \<open>i\<close>-th waiting manual call ends and its
    \<open>while\<close> loop tests \<open>isRunning\<close> again;
  \<^item> \<open>Settle ok\<close>: the pending \<open>executeArticleCheck\<close> resolves (\<open>ok\<close>) or throws, and
    \<open>executeJob\<close> runs to its end;
  \<^item> \<open>Resume\<close>: the \<open>finally\<close> block of a \<open>runManualCheck\<close> whose \<open>executeJob\<close> has
    ended.
  The body of the job is left out: it writes neither \<open>isRunning\<close> nor
  \<open>isManualRunning\<close>.
\<close>

datatype trigger = Scheduled | Manual

datatype event = Tick | ManualCall bool | Poll nat | Settle bool | Resume

text \<open>
  The scheduler object and the calls that are under way: the runs whose
  \<open>executeArticleCheck\<close> is pending, the manual calls in the \<open>while\<close> loop (with their
  argument), the manual calls before their \<open>finally\<close> block, and the number of scheduled
  calls that returned at a guard.
\<close>

record 'm system =
  sched :: "'m scheduler"
  inflight :: "trigger list"
  waiting :: "bool list"
  resuming :: nat
  skipped :: nat

text \<open>\<open>executeJob\<close> behind its guard, up to the \<open>await\<close>.\<close>

definition startJob :: "trigger \<Rightarrow> 'm system \<Rightarrow> 'm system" where
  "startJob t s =
     s\<lparr>sched := (sched s)\<lparr>isRunning := True,
                            stats := (stats (sched s))
                              \<lparr>totalRuns := totalRuns (stats (sched s)) + 1\<rparr>\<rparr>,
       inflight := inflight s @ [t]\<rparr>"

text \<open>\<open>runManualCheck\<close> behind its \<open>while\<close> loop, up to the \<open>await\<close>.\<close>

definition startManual :: "bool \<Rightarrow> 'm system \<Rightarrow> 'm system" where
  "startManual b s =
     startJob Manual (s\<lparr>sched := (sched s)\<lparr>isManualRunning := True, bypassCache := b\<rparr>\<rparr>)"

fun step :: "event \<Rightarrow> 'm system \<Rightarrow> 'm system" where
  "step Tick s =
     (if isManualRunning (sched s) then s\<lparr>skipped := skipped s + 1\<rparr>
      else if isRunning (sched s) then s\<lparr>skipped := skipped s + 1\<rparr>
      else startJob Scheduled s)"
| "step (ManualCall b) s =
     (if isRunning (sched s) then s\<lparr>waiting := waiting s @ [b]\<rparr>
      else startManual b s)"
| "step (Poll i) s =
     (if i < length (waiting s) then
        if isRunning (sched s) then s
        else startManual (waiting s ! i)
               (s\<lparr>waiting := take i (waiting s) @ drop (Suc i) (waiting s)\<rparr>)
      else s)"
| "step (Settle ok) s =
     (case inflight s of
        [] \<Rightarrow> s
      | t # ts \<Rightarrow>
          s\<lparr>sched := (sched s)
               \<lparr>stats := (if ok
                   then (stats (sched s))
                          \<lparr>successfulRuns := successfulRuns (stats (sched s)) + 1\<rparr>
                   else (stats (sched s))
                          \<lparr>failedRuns := failedRuns (stats (sched s)) + 1\<rparr>),
                isRunning := False\<rparr>,
            inflight := ts,
            resuming := (if t = Manual then resuming s + 1 else resuming s)\<rparr>)"
| "step Resume s =
     (if resuming s > 0
      then s\<lparr>sched := (sched s)\<lparr>isManualRunning := False, bypassCache := False\<rparr>,
             resuming := resuming s - 1\<rparr>
      else s)"

text \<open>The state after a sequence of events, from a scheduler as its constructor leaves it.\<close>

definition initial :: "string DailyCache \<Rightarrow> 'm \<Rightarrow> 'm system" where
  "initial c m =
     \<lparr>sched = new_scheduler c m, inflight = [], waiting = [], resuming = 0, skipped = 0\<rparr>"

definition after :: "event list \<Rightarrow> 'm system \<Rightarrow> 'm system" where
  "after es s = foldl (\<lambda>s e. step e s) s es"

text \<open>At most one run is pending, and \<open>isRunning\<close> is set exactly while one is.\<close>

definition lock_inv :: "'m system \<Rightarrow> bool" where
  "lock_inv s \<longleftrightarrow> length (inflight s) \<le> 1 \<and> (isRunning (sched s) \<longleftrightarrow> inflight s \<noteq> [])"


section \<open>Concrete collaborators and inputs\<close>

text \<open>A messenger without state that delivers every article, and one that delivers none.\<close>

definition alwaysDelivers :: "unit sendArticle" where
  "alwaysDelivers article m = (Inr (), m)"

definition neverDelivers :: "unit sendArticle" where
  "neverDelivers article m = (Inl (Error ''send failed''), m)"

definition emptyCache :: "string \<Rightarrow> string DailyCache" where
  "emptyCache mode = \<lparr>cacheMode = mode, dailyCache = [], cacheFile = Missing, writable = True\<rparr>"

text \<open>Two sources of a \<open>--once\<close> run: the feed of the first cannot be fetched.\<close>

definition src_unreachable :: "(post, unit) source" where
  "src_unreachable =
     \<lparr>src_name = ''kofeArticle'', src_parseFeed = Inl (Error ''ECONNREFUSED''),
      src_isToday = (\<lambda>i. True), src_normalizeArticle = Inr, src_sendArticle = alwaysDelivers,
      src_scheduler = new_scheduler (emptyCache ''bypass'') (), src_timesOut = False,
      src_elapsed = 35\<rparr>"

definition src_healthy :: "(post, unit) source" where
  "src_healthy =
     \<lparr>src_name = ''naverfenews'', src_parseFeed = Inr [\<lparr>url = ''https://example.org/1''\<rparr>],
      src_isToday = (\<lambda>i. True), src_normalizeArticle = Inr, src_sendArticle = alwaysDelivers,
      src_scheduler = new_scheduler (emptyCache ''bypass'') (), src_timesOut = False,
      src_elapsed = 120\<rparr>"




section \<open>Properties of the content filter\<close>

lemmas keyword_tables = projectTechStack_primary_def projectTechStack_secondary_def
  webFrontendTech_high_def webFrontendTech_medium_def webFrontendTech_low_def
  aiFrontendTech_high_def aiFrontendTech_medium_def buildTools_preferred_def buildTools_common_def
  packageManagers_preferred_def packageManagers_common_def discouragedTech_frameworks_def
  discouragedTech_stateManagement_def discouragedTech_styling_def discouragedTech_bundlers_def
  technicalIndicators_def codeMarkers_def

lemmas pattern_eval = some_pattern_def asc_def canonicalize_def lineTerminator_def

lemma titled_texts:
  assumes "asc s = t" "t \<noteq> []" "ascii_lower t = t"
  shows "title_text ascii_lower (titled s) = Inr t"
    and "content_text ascii_lower (titled s) = Inr []"
    and "detailed_content_text ascii_lower (titled s) = Inr []"
  using assms
  by (simp_all add: title_text_def content_text_def detailed_content_text_def titled_def
        js_or_def ascii_lower_def)

text \<open>
  C1. The backend-only gate of a lenient source is meant to reject before the event gate
  admits. \<open>isRelevantContent\<close> tests the backend-only patterns first, but
  \<open>getDetailedFilterResult\<close> tests the event keywords first: for the title
  ``backend only event'' of a lenient source it admits the article with the fixed score 0.8
  and no decision, while \<open>isRelevantContent\<close> rejects the same article as EXCLUDED.
\<close>

theorem backend_only_event_detailed:
  "getDetailedFilterResult ascii_lower True (titled ''backend only event'') =
     Inr \<lparr>isRelevant = True, score = 0.8, decision = None,
          details = Scores \<lparr>project = 0, frontend = 0, ai = 0, contextScore = 0.8, tools = 0,
            penalty = 0, autoApproved = Some ''Conference/meetup content''\<rparr>\<rparr>
   \<and> isRelevantContent ascii_lower True (titled ''backend only event'') =
     Inr ([\<lparr>log_score = 9 / 400, log_decision = EXCLUDED,
            log_details = Reason ''Backend-only content for lenient source''\<rparr>], False)"
proof -
  define t :: jsstring
    where "t = [98, 97, 99, 107, 101, 110, 100, 32, 111, 110, 108, 121, 32, 101, 118, 101, 110, 116]"
  have a: "asc ''backend only event'' = t" "t \<noteq> []" "ascii_lower t = t"
    by (simp_all add: asc_def ascii_lower_def t_def)
  note texts = titled_texts [OF a]
  have ft: "fullText_of t [] = t @ [32]"
    by (simp add: fullText_of_def asc_def)
  have lcft: "ascii_lower (t @ [32]) = t @ [32]"
    by (simp add: ascii_lower_def t_def)
  have ex: "\<not> hasExclusionContent t []"
    unfolding hasExclusionContent_def ft
    by (simp add: t_def exclusionPatterns_def pattern_eval)
  have ev: "list_ex (\<lambda>keyword. str_includes (t @ [32]) (ascii_lower keyword)) eventKeywords"
    by (simp add: t_def eventKeywords_def asc_def ascii_lower_def)
  have bo: "some_pattern backendOnlyPatterns (t @ [32])"
    by (simp add: t_def backendOnlyPatterns_def pattern_eval)
  have p1: "getProjectTechScore t [] = 0"
    unfolding getProjectTechScore_def Let_def
    by (simp add: t_def keyword_tables asc_def)
  have p2: "getFrontendTechScore t [] = 0"
    unfolding getFrontendTechScore_def Let_def
    by (simp add: t_def keyword_tables asc_def)
  have p3: "getAiFrontendScore t [] = 0"
    unfolding getAiFrontendScore_def Let_def
    by (simp add: t_def keyword_tables asc_def)
  have p4: "getTechnicalContextScore t [] = 0.15"
    unfolding getTechnicalContextScore_def Let_def ft
    by (simp add: t_def keyword_tables asc_def some_included_def)
  have p5: "getToolsScore t [] = 0"
    unfolding getToolsScore_def Let_def ft
    by (simp add: t_def keyword_tables asc_def)
  have p6: "getDiscouragementPenalty t [] = 0"
    unfolding getDiscouragementPenalty_def Let_def ft
    by (simp add: t_def keyword_tables asc_def)
  have w: "weightedSum t [] = 9 / 400"
    by (simp add: weightedSum_def p1 p2 p3 p4 p5 p6)
  have "getDetailedFilterResult ascii_lower True (titled ''backend only event'') =
     Inr \<lparr>isRelevant = True, score = 0.8, decision = None,
          details = Scores \<lparr>project = 0, frontend = 0, ai = 0, contextScore = 0.8, tools = 0,
            penalty = 0, autoApproved = Some ''Conference/meetup content''\<rparr>\<rparr>"
    unfolding getDetailedFilterResult_def Let_def
    by (simp add: texts ft lcft ex ev)
  moreover have "isRelevantContent ascii_lower True (titled ''backend only event'') =
     Inr ([\<lparr>log_score = 9 / 400, log_decision = EXCLUDED,
            log_details = Reason ''Backend-only content for lenient source''\<rparr>], False)"
    unfolding isRelevantContent_def Let_def
    by (simp add: texts ft ex bo w)
  ultimately show ?thesis by simp
qed

text \<open>
  C3. \<open>isRelevantContent\<close> is meant never to throw. For a lenient source and the
  title ``docker'' (a development keyword, no event keyword, total score 0) it reaches the
  assignment to the constant \<open>totalScore\<close> and raises a TypeError.
\<close>

theorem docker_lenient_throws:
  "isRelevantContent ascii_lower True (titled ''docker'') = Inl constAssignment"
proof -
  define t :: jsstring where "t = [100, 111, 99, 107, 101, 114]"
  have a: "asc ''docker'' = t" "t \<noteq> []" "ascii_lower t = t"
    by (simp_all add: asc_def ascii_lower_def t_def)
  note texts = titled_texts [OF a]
  have ft: "fullText_of t [] = t @ [32]"
    by (simp add: fullText_of_def asc_def)
  have lcft: "ascii_lower (t @ [32]) = t @ [32]"
    by (simp add: ascii_lower_def t_def)
  have ex: "\<not> hasExclusionContent t []"
    unfolding hasExclusionContent_def ft
    by (simp add: t_def exclusionPatterns_def pattern_eval)
  have ev: "\<not> list_ex (\<lambda>keyword. str_includes (t @ [32]) (ascii_lower keyword)) eventKeywords"
    by (simp add: t_def eventKeywords_def asc_def ascii_lower_def)
  have bo: "\<not> some_pattern backendOnlyPatterns (t @ [32])"
    by (simp add: t_def backendOnlyPatterns_def pattern_eval)
  have dev: "some_included devKeywords (t @ [32])"
    by (simp add: t_def devKeywords_def some_included_def asc_def)
  have p1: "getProjectTechScore t [] = 0"
    unfolding getProjectTechScore_def Let_def
    by (simp add: t_def keyword_tables asc_def)
  have p2: "getFrontendTechScore t [] = 0"
    unfolding getFrontendTechScore_def Let_def
    by (simp add: t_def keyword_tables asc_def)
  have p3: "getAiFrontendScore t [] = 0"
    unfolding getAiFrontendScore_def Let_def
    by (simp add: t_def keyword_tables asc_def)
  have p4: "getTechnicalContextScore t [] = 0"
    unfolding getTechnicalContextScore_def Let_def ft
    by (simp add: t_def keyword_tables asc_def some_included_def)
  have p5: "getToolsScore t [] = 0"
    unfolding getToolsScore_def Let_def ft
    by (simp add: t_def keyword_tables asc_def)
  have p6: "getDiscouragementPenalty t [] = 0"
    unfolding getDiscouragementPenalty_def Let_def ft
    by (simp add: t_def keyword_tables asc_def)
  have w: "weightedSum t [] = 0"
    by (simp add: weightedSum_def p1 p2 p3 p4 p5 p6)
  show ?thesis
    unfolding isRelevantContent_def Let_def
    by (simp add: texts ft lcft ex ev bo dev w)
qed

text \<open>
  The five category scores lie between 0 and 1, the penalty is not positive, and every
  score that \<open>isRelevantContent\<close> writes to the log is the floored total or larger.
\<close>

lemma forEach_title_content_ge:
  "0 \<le> wt \<Longrightarrow> 0 \<le> wc \<Longrightarrow> acc \<le> forEach_title_content wt wc t c ks acc"
proof (induction ks arbitrary: acc)
  case Nil
  then show ?case by simp
next
  case (Cons k ks)
  have "acc \<le> (if str_includes t k then acc + wt else if str_includes c k then acc + wc else acc)"
    using Cons.prems by simp
  also have "\<dots> \<le> forEach_title_content wt wc t c (k # ks) acc"
    using Cons.IH [OF Cons.prems] by simp
  finally show ?case .
qed

lemma forEach_fullText_ge:
  "0 \<le> w \<Longrightarrow> acc \<le> forEach_fullText w ft ks acc"
proof (induction ks arbitrary: acc)
  case Nil
  then show ?case by simp
next
  case (Cons k ks)
  have "acc \<le> (if str_includes ft k then acc + w else acc)"
    using Cons.prems by simp
  also have "\<dots> \<le> forEach_fullText w ft (k # ks) acc"
    using Cons.IH [OF Cons.prems] by simp
  finally show ?case .
qed

lemma forEach_fullText_le:
  "w \<le> 0 \<Longrightarrow> forEach_fullText w ft ks acc \<le> acc"
proof (induction ks arbitrary: acc)
  case Nil
  then show ?case by simp
next
  case (Cons k ks)
  have "forEach_fullText w ft (k # ks) acc \<le> (if str_includes ft k then acc + w else acc)"
    using Cons.IH [OF Cons.prems] by simp
  also have "\<dots> \<le> acc"
    using Cons.prems by simp
  finally show ?case .
qed

lemma category_scores_in_unit_interval:
  "0 \<le> getProjectTechScore t c \<and> getProjectTechScore t c \<le> 1"
  "0 \<le> getFrontendTechScore t c \<and> getFrontendTechScore t c \<le> 1"
  "0 \<le> getAiFrontendScore t c \<and> getAiFrontendScore t c \<le> 1"
  "0 \<le> getTechnicalContextScore t c \<and> getTechnicalContextScore t c \<le> 1"
  "0 \<le> getToolsScore t c \<and> getToolsScore t c \<le> 1"
proof -
  have tc: "0 \<le> forEach_title_content wt wc t c ks acc" if "0 \<le> wt" "0 \<le> wc" "0 \<le> acc"
    for wt wc ks acc
    using forEach_title_content_ge [OF that(1,2), of acc t c ks] that(3) by simp
  have ft: "0 \<le> forEach_fullText w x ks acc" if "0 \<le> w" "0 \<le> acc" for w x ks acc
    using forEach_fullText_ge [OF that(1), of acc x ks] that(2) by simp
  show "0 \<le> getProjectTechScore t c \<and> getProjectTechScore t c \<le> 1"
    unfolding getProjectTechScore_def Let_def by (simp add: tc)
  show "0 \<le> getFrontendTechScore t c \<and> getFrontendTechScore t c \<le> 1"
    unfolding getFrontendTechScore_def Let_def by (simp add: tc)
  show "0 \<le> getAiFrontendScore t c \<and> getAiFrontendScore t c \<le> 1"
    unfolding getAiFrontendScore_def Let_def by (simp add: tc)
  show "0 \<le> getTechnicalContextScore t c \<and> getTechnicalContextScore t c \<le> 1"
    unfolding getTechnicalContextScore_def Let_def by (simp add: ft)
  show "0 \<le> getToolsScore t c \<and> getToolsScore t c \<le> 1"
    unfolding getToolsScore_def Let_def by (simp add: ft)
qed

lemma penalty_not_positive: "getDiscouragementPenalty t c \<le> 0"
proof -
  have le: "forEach_fullText w x ks acc \<le> 0" if "w \<le> 0" "acc \<le> 0" for w x ks acc
    using forEach_fullText_le [OF that(1), of x ks acc] that(2) by simp
  show ?thesis
    unfolding getDiscouragementPenalty_def Let_def by (simp add: le)
qed

lemma isRelevantContent_logs_no_negative_score:
  "isRelevantContent lc lenient a = Inr (entries, r) \<Longrightarrow> e \<in> set entries \<Longrightarrow> 0 \<le> log_score e"
  by (auto simp: isRelevantContent_def Let_def split: sum.splits if_splits)

text \<open>
  C9. The final score is meant never to be negative. \<open>getDetailedFilterResult\<close> adds
  the penalty without the floor at 0 that \<open>isRelevantContent\<close> applies: for the title
  ``vue'' of a strict source the returned score is -0.3.
\<close>

theorem vue_detailed_score_negative:
  "getDetailedFilterResult ascii_lower False (titled ''vue'') =
     Inr \<lparr>isRelevant = False, score = - 0.3, decision = None,
          details = Scores \<lparr>project = 0, frontend = 0, ai = 0, contextScore = 0, tools = 0,
            penalty = - 0.3, autoApproved = None\<rparr>\<rparr>"
proof -
  define t :: jsstring where "t = [118, 117, 101]"
  have a: "asc ''vue'' = t" "t \<noteq> []" "ascii_lower t = t"
    by (simp_all add: asc_def ascii_lower_def t_def)
  note texts = titled_texts [OF a]
  have ft: "fullText_of t [] = t @ [32]"
    by (simp add: fullText_of_def asc_def)
  have ex: "\<not> hasExclusionContent t []"
    unfolding hasExclusionContent_def ft
    by (simp add: t_def exclusionPatterns_def pattern_eval)
  have p1: "getProjectTechScore t [] = 0"
    unfolding getProjectTechScore_def Let_def
    by (simp add: t_def keyword_tables asc_def)
  have p2: "getFrontendTechScore t [] = 0"
    unfolding getFrontendTechScore_def Let_def
    by (simp add: t_def keyword_tables asc_def)
  have p3: "getAiFrontendScore t [] = 0"
    unfolding getAiFrontendScore_def Let_def
    by (simp add: t_def keyword_tables asc_def)
  have p4: "getTechnicalContextScore t [] = 0"
    unfolding getTechnicalContextScore_def Let_def ft
    by (simp add: t_def keyword_tables asc_def some_included_def)
  have p5: "getToolsScore t [] = 0"
    unfolding getToolsScore_def Let_def ft
    by (simp add: t_def keyword_tables asc_def)
  have p6: "getDiscouragementPenalty t [] = - 0.3"
    unfolding getDiscouragementPenalty_def Let_def ft
    by (simp add: t_def keyword_tables asc_def)
  have w: "weightedSum t [] = - 0.3"
    by (simp add: weightedSum_def p1 p2 p3 p4 p5 p6)
  show ?thesis
    unfolding getDetailedFilterResult_def Let_def
    by (simp add: texts ex w scores_of_def p1 p2 p3 p4 p5 p6)
qed

text \<open>
  C2. Take an article whose title is a string or is missing, and whose body, the first
  truthy value among \<open>contentEncoded\<close>, \<open>summary\<close> and \<open>content\<close> for
  \<open>isRelevantContent\<close> (and among these and \<open>description\<close> for
  \<open>getDetailedFilterResult\<close>), is a string or is missing. When an exclusion pattern
  matches the lower-cased title, a blank and the lower-cased body, the entry point rejects
  the article with score 0 and decision EXCLUDED, whatever the lenient flag and whatever
  else the text contains: no other gate and no score is consulted.
  (\<open>isRelevantContent\<close> reports score and decision in its log line.)
\<close>

theorem exclusion_first:
  "((title a = JString ts \<or> \<not> truthy (title a) \<and> ts = [])
      \<and> (find truthy [contentEncoded a, summary a, content a] = Some (JString cs)
           \<or> find truthy [contentEncoded a, summary a, content a] = None \<and> cs = [])
      \<and> (\<exists>p \<in> set exclusionPatterns. regex_test p (lc ts @ asc '' '' @ lc cs)) \<longrightarrow>
      isRelevantContent lc lenient a =
        Inr ([\<lparr>log_score = 0, log_decision = EXCLUDED,
               log_details = Reason ''Explicit exclusion pattern matched''\<rparr>], False))
   \<and> ((title a = JString ts \<or> \<not> truthy (title a) \<and> ts = [])
      \<and> (find truthy [contentEncoded a, summary a, content a, description a]
             = Some (JString ds)
           \<or> find truthy [contentEncoded a, summary a, content a, description a] = None
             \<and> ds = [])
      \<and> (\<exists>p \<in> set exclusionPatterns. regex_test p (lc ts @ asc '' '' @ lc ds)) \<longrightarrow>
      getDetailedFilterResult lc lenient a =
        Inr \<lparr>isRelevant = False, score = 0, decision = Some EXCLUDED,
             details = Reason ''Explicit exclusion pattern matched''\<rparr>)"
proof (intro conjI impI)
  assume h: "(title a = JString ts \<or> \<not> truthy (title a) \<and> ts = [])
      \<and> (find truthy [contentEncoded a, summary a, content a] = Some (JString cs)
           \<or> find truthy [contentEncoded a, summary a, content a] = None \<and> cs = [])
      \<and> (\<exists>p \<in> set exclusionPatterns. regex_test p (lc ts @ asc '' '' @ lc cs))"
  then have t: "title_text lc a = Inr (lc ts)"
    by (auto simp: title_text_def js_or_def)
  from h have c: "content_text lc a = Inr (lc cs)"
    by (auto simp: content_text_def js_or_def split: if_splits)
  from h have "hasExclusionContent (lc ts) (lc cs)"
    by (simp add: hasExclusionContent_def some_pattern_def fullText_of_def list_ex_iff)
  then show "isRelevantContent lc lenient a =
        Inr ([\<lparr>log_score = 0, log_decision = EXCLUDED,
               log_details = Reason ''Explicit exclusion pattern matched''\<rparr>], False)"
    by (simp add: isRelevantContent_def t c)
next
  assume h: "(title a = JString ts \<or> \<not> truthy (title a) \<and> ts = [])
      \<and> (find truthy [contentEncoded a, summary a, content a, description a]
             = Some (JString ds)
           \<or> find truthy [contentEncoded a, summary a, content a, description a] = None
             \<and> ds = [])
      \<and> (\<exists>p \<in> set exclusionPatterns. regex_test p (lc ts @ asc '' '' @ lc ds))"
  then have t: "title_text lc a = Inr (lc ts)"
    by (auto simp: title_text_def js_or_def)
  from h have c: "detailed_content_text lc a = Inr (lc ds)"
    by (auto simp: detailed_content_text_def js_or_def split: if_splits)
  from h have "hasExclusionContent (lc ts) (lc ds)"
    by (simp add: hasExclusionContent_def some_pattern_def fullText_of_def list_ex_iff)
  then show "getDetailedFilterResult lc lenient a =
        Inr \<lparr>isRelevant = False, score = 0, decision = Some EXCLUDED,
             details = Reason ''Explicit exclusion pattern matched''\<rparr>"
    by (simp add: getDetailedFilterResult_def t c)
qed

lemma reviewed_texts:
  "asc ''React Hooks'' = [82, 101, 97, 99, 116, 32, 72, 111, 111, 107, 115]"
  "asc ''React Native mobile app'' = [82, 101, 97, 99, 116, 32, 78, 97, 116, 105, 118, 101, 32,
     109, 111, 98, 105, 108, 101, 32, 97, 112, 112]"
  by (simp_all add: asc_def)

lemma reviewed_match:
  "\<exists>p \<in> set exclusionPatterns. regex_test p
     (ascii_lower [82, 101, 97, 99, 116, 32, 72, 111, 111, 107, 115] @ asc '' '' @
      ascii_lower [82, 101, 97, 99, 116, 32, 78, 97, 116, 105, 118, 101, 32,
        109, 111, 98, 105, 108, 101, 32, 97, 112, 112])"
proof (rule bexI [where x = "DotStar (asc ''react'') (asc ''native'')"])
  show "DotStar (asc ''react'') (asc ''native'') \<in> set exclusionPatterns"
    by (simp add: exclusionPatterns_def)
  show "regex_test (DotStar (asc ''react'') (asc ''native''))
     (ascii_lower [82, 101, 97, 99, 116, 32, 72, 111, 111, 107, 115] @ asc '' '' @
      ascii_lower [82, 101, 97, 99, 116, 32, 78, 97, 116, 105, 118, 101, 32,
        109, 111, 98, 105, 108, 101, 32, 97, 112, 112])"
    by (simp add: asc_def ascii_lower_def canonicalize_def lineTerminator_def)
qed

theorem exclusion_first_witness:
  "isRelevantContent ascii_lower True reviewed_in_body =
        Inr ([\<lparr>log_score = 0, log_decision = EXCLUDED,
               log_details = Reason ''Explicit exclusion pattern matched''\<rparr>], False)
   \<and> getDetailedFilterResult ascii_lower True reviewed_in_body =
        Inr \<lparr>isRelevant = False, score = 0, decision = Some EXCLUDED,
             details = Reason ''Explicit exclusion pattern matched''\<rparr>
   \<and> getDetailedFilterResult ascii_lower False reviewed_in_description =
        Inr \<lparr>isRelevant = False, score = 0, decision = Some EXCLUDED,
             details = Reason ''Explicit exclusion pattern matched''\<rparr>"
  using exclusion_first [where a = reviewed_in_body
      and ts = "[82, 101, 97, 99, 116, 32, 72, 111, 111, 107, 115]"
      and cs = "[82, 101, 97, 99, 116, 32, 78, 97, 116, 105, 118, 101, 32,
        109, 111, 98, 105, 108, 101, 32, 97, 112, 112]"
      and ds = "[82, 101, 97, 99, 116, 32, 78, 97, 116, 105, 118, 101, 32,
        109, 111, 98, 105, 108, 101, 32, 97, 112, 112]"
      and lc = ascii_lower and lenient = True]
    exclusion_first [where a = reviewed_in_description
      and ts = "[82, 101, 97, 99, 116, 32, 72, 111, 111, 107, 115]"
      and cs = "[]"
      and ds = "[82, 101, 97, 99, 116, 32, 78, 97, 116, 105, 118, 101, 32,
        109, 111, 98, 105, 108, 101, 32, 97, 112, 112]"
      and lc = ascii_lower and lenient = False]
    reviewed_match
  by (simp add: reviewed_in_body_def reviewed_in_description_def reviewed_texts)

text \<open>
  The two entry points do not read the same body: \<open>isRelevantContent\<close> does not read
  \<open>description\<close>, so for a strict source it admits the second article, which
  \<open>getDetailedFilterResult\<close> excludes.
\<close>

lemma description_not_read_by_isRelevantContent:
  "isRelevantContent ascii_lower False reviewed_in_description =
     Inr ([\<lparr>log_score = 0.7, log_decision = PASS,
            log_details = Scores \<lparr>project = 1, frontend = 1, ai = 0, contextScore = 0,
              tools = 0, penalty = 0, autoApproved = None\<rparr>\<rparr>], True)"
proof -
  define t :: jsstring where "t = [114, 101, 97, 99, 116, 32, 104, 111, 111, 107, 115]"
  have texts: "title_text ascii_lower reviewed_in_description = Inr t"
    "content_text ascii_lower reviewed_in_description = Inr []"
    by (simp_all add: title_text_def content_text_def reviewed_in_description_def js_or_def
          asc_def ascii_lower_def t_def)
  have ft: "fullText_of t [] = t @ [32]"
    by (simp add: fullText_of_def asc_def)
  have ex: "\<not> hasExclusionContent t []"
    unfolding hasExclusionContent_def ft
    by (simp add: t_def exclusionPatterns_def pattern_eval)
  have p1: "getProjectTechScore t [] = 1"
    unfolding getProjectTechScore_def Let_def
    by (simp add: t_def keyword_tables asc_def)
  have p2: "getFrontendTechScore t [] = 1"
    unfolding getFrontendTechScore_def Let_def
    by (simp add: t_def keyword_tables asc_def)
  have p3: "getAiFrontendScore t [] = 0"
    unfolding getAiFrontendScore_def Let_def
    by (simp add: t_def keyword_tables asc_def)
  have p4: "getTechnicalContextScore t [] = 0"
    unfolding getTechnicalContextScore_def Let_def ft
    by (simp add: t_def keyword_tables asc_def some_included_def)
  have p5: "getToolsScore t [] = 0"
    unfolding getToolsScore_def Let_def ft
    by (simp add: t_def keyword_tables asc_def)
  have p6: "getDiscouragementPenalty t [] = 0"
    unfolding getDiscouragementPenalty_def Let_def ft
    by (simp add: t_def keyword_tables asc_def)
  have w: "weightedSum t [] = 0.7"
    by (simp add: weightedSum_def p1 p2 p3 p4 p5 p6)
  show ?thesis
    unfolding isRelevantContent_def Let_def
    by (simp add: texts ex w scores_of_def p1 p2 p3 p4 p5 p6)
qed

section \<open>Properties of the daily cache\<close>

lemma map_of_Map_set: "map_of (Map_set m k v) k' = (if k' = k then Some v else map_of m k')"
  by (induction m) auto

lemma todaySet_add [simp]:
  "todaySet today (todayCache_add today c x) = Set_add (todaySet today c) x"
  by (simp add: todaySet_def todayCache_add_def map_of_Map_set)

lemma cacheMode_add [simp]: "cacheMode (todayCache_add today c x) = cacheMode c"
  by (simp add: todayCache_add_def)

lemma set_Set_add [simp]: "set (Set_add s x) = insert x (set s)"
  by (auto simp: Set_add_def)

lemma fold_add_set:
  "set (todaySet today (foldl (\<lambda>c p. todayCache_add today c (f p)) c ps))
     = set (todaySet today c) \<union> f ` set ps"
  by (induction ps arbitrary: c) auto

lemma fold_add_mode [simp]:
  "cacheMode (foldl (\<lambda>c p. todayCache_add today c (f p)) c ps) = cacheMode c"
  by (induction ps arbitrary: c) auto

lemma Map_has_Map_set [simp]: "Map_has (Map_set m k v) k"
  by (simp add: Map_has_def map_of_Map_set)

lemma Map_has_add [simp]: "Map_has (dailyCache (todayCache_add today c x)) today"
  by (simp add: todayCache_add_def)

lemma fold_add_has:
  "Map_has (dailyCache c) today \<Longrightarrow>
   Map_has (dailyCache (foldl (\<lambda>c p. todayCache_add today c (f p)) c ps)) today"
  by (induction ps arbitrary: c) auto

lemma getTodayCache_has [simp]: "Map_has (dailyCache (getTodayCache today c)) today"
  by (simp add: getTodayCache_def)

lemma getTodayCache_idem: "Map_has (dailyCache c) today \<Longrightarrow> getTodayCache today c = c"
  by (simp add: getTodayCache_def)

lemma todaySet_getTodayCache [simp]: "todaySet today (getTodayCache today c) = todaySet today c"
  by (auto simp: getTodayCache_def todaySet_def map_of_Map_set Map_has_def)

lemma cacheMode_getTodayCache [simp]: "cacheMode (getTodayCache today c) = cacheMode c"
  by (simp add: getTodayCache_def)

lemma saveToFile_fields [simp]:
  "dailyCache (saveToFile c) = dailyCache c" "cacheMode (saveToFile c) = cacheMode c"
  "todaySet today (saveToFile c) = todaySet today c"
  by (simp_all add: saveToFile_def todaySet_def)

text \<open>
  C4. In memory mode (without the per-call bypass flag) and in file mode,
  \<open>filterNewPosts\<close> with marking enabled returns the candidates that are not recorded
  for today yet, which is the whole candidate list when none of them is recorded, and a
  second call on the same day with the same candidates and the same identifier function
  returns the empty list. In bypass mode both calls return the whole list and leave the
  cache as it was.
\<close>

theorem filterNewPosts_twice:
  "((cacheMode c = ''memory'' \<and> \<not> bypass \<or> cacheMode c = ''file'') \<longrightarrow>
      fst (filterNewPosts posts getPostId bypass True today c)
        = filter (\<lambda>p. getPostId p \<notin> set (todaySet today c)) posts
      \<and> ((\<forall>p \<in> set posts. getPostId p \<notin> set (todaySet today c)) \<longrightarrow>
            fst (filterNewPosts posts getPostId bypass True today c) = posts)
      \<and> fst (filterNewPosts posts getPostId bypass True today
               (snd (filterNewPosts posts getPostId bypass True today c))) = [])
   \<and> (cacheMode c = ''bypass'' \<longrightarrow>
      filterNewPosts posts getPostId bypass True today c = (posts, c)
      \<and> filterNewPosts posts getPostId bypass True today
           (snd (filterNewPosts posts getPostId bypass True today c)) = (posts, c))"
proof (intro conjI impI)
  assume "cacheMode c = ''bypass''"
  then show "filterNewPosts posts getPostId bypass True today c = (posts, c)"
    by (simp add: filterNewPosts_def)
  then show "filterNewPosts posts getPostId bypass True today
      (snd (filterNewPosts posts getPostId bypass True today c)) = (posts, c)"
    by simp
next
  assume h: "cacheMode c = ''memory'' \<and> \<not> bypass \<or> cacheMode c = ''file''"
  then have consulted:
    "(cacheMode c = ''bypass'' \<or> (bypass \<and> cacheMode c \<noteq> ''file'')) = False"
    by auto
  define newPosts where
    "newPosts = filter (\<lambda>post. \<not> Set_has (todaySet today c) (getPostId post)) posts"
  define c2 where
    "c2 = foldl (\<lambda>c post. todayCache_add today c (getPostId post))
            (getTodayCache today c) newPosts"
  define c1 where
    "c1 = (if newPosts = [] then getTodayCache today c
           else if cacheMode c2 = ''file'' then saveToFile c2 else c2)"
  have mode1: "cacheMode c1 = cacheMode c"
    by (simp add: c1_def c2_def)
  have seen: "set (todaySet today c1) = set (todaySet today c) \<union> getPostId ` set newPosts"
    by (simp add: c1_def c2_def fold_add_set)
  have call1: "filterNewPosts posts getPostId bypass True today c = (newPosts, c1)"
    unfolding filterNewPosts_def Let_def consulted
    by (simp add: c1_def c2_def newPosts_def)
  show first: "fst (filterNewPosts posts getPostId bypass True today c)
      = filter (\<lambda>p. getPostId p \<notin> set (todaySet today c)) posts"
    by (simp add: call1 newPosts_def Set_has_def)
  show "fst (filterNewPosts posts getPostId bypass True today c) = posts"
    if "\<forall>p \<in> set posts. getPostId p \<notin> set (todaySet today c)"
    using that by (simp add: first)
  have consulted1:
    "(cacheMode c1 = ''bypass'' \<or> (bypass \<and> cacheMode c1 \<noteq> ''file'')) = False"
    using consulted by (simp add: mode1)
  have none: "filter (\<lambda>post. \<not> Set_has (todaySet today c1) (getPostId post)) posts = []"
    by (auto simp: seen Set_has_def newPosts_def filter_empty_conv)
  have "fst (filterNewPosts posts getPostId bypass True today c1) = []"
    unfolding filterNewPosts_def Let_def consulted1
    by (simp add: none)
  then show "fst (filterNewPosts posts getPostId bypass True today
               (snd (filterNewPosts posts getPostId bypass True today c))) = []"
    by (simp add: call1)
qed

theorem filterNewPosts_twice_witness:
  "fst (filterNewPosts [''u1'', ''u2''] (\<lambda>p. p) False True ''2025-01-01''
          (emptyCache ''memory''))
     = [''u1'', ''u2'']
   \<and> fst (filterNewPosts [''u1'', ''u2''] (\<lambda>p. p) False True ''2025-01-01''
          (snd (filterNewPosts [''u1'', ''u2''] (\<lambda>p. p) False True ''2025-01-01''
             (emptyCache ''memory''))))
     = []
   \<and> filterNewPosts [''u1'', ''u2''] (\<lambda>p. p) False True ''2025-01-01''
          (emptyCache ''bypass'')
     = ([''u1'', ''u2''],
        (emptyCache ''bypass''))"
  using filterNewPosts_twice [of
      "emptyCache ''memory''"
      False "[''u1'', ''u2'']" "\<lambda>p. p" "''2025-01-01''"]
    filterNewPosts_twice [of
      "emptyCache ''bypass''"
      False "[''u1'', ''u2'']" "\<lambda>p. p" "''2025-01-01''"]
  by (simp add: todaySet_def emptyCache_def)

text \<open>The guards of a bypass-mode cache: the three guarded operations change nothing.\<close>

lemma bypass_guards:
  assumes "cacheMode c = ''bypass''"
  shows "hasSent postId b today c = (False, c)"
    and "markAsSent postId b today c = c"
    and "filterNewPosts posts getPostId b mark today c = (posts, c)"
  using assms by (simp_all add: hasSent_def markAsSent_def filterNewPosts_def)

text \<open>
  C5. No operation of a bypass-mode cache is meant to change its stored state.
  \<open>markAsSent\<close> and \<open>filterNewPosts\<close> return at their bypass guard, but
  \<open>markMultipleAsSent\<close> has no such guard: on a bypass-mode cache it creates today's
  set and adds the identifier, which \<open>getTodayStats\<close> then counts.
\<close>

theorem markMultipleAsSent_ignores_bypass:
  "markMultipleAsSent [\<lparr>url = ''u1''\<rparr>] url ''2025-01-01'' (emptyCache ''bypass'')
     = \<lparr>cacheMode = ''bypass'', dailyCache = [(''2025-01-01'', [''u1''])],
        cacheFile = Missing, writable = True\<rparr>
   \<and> cachedCount ''2025-01-01'' (emptyCache ''bypass'') = 0
   \<and> cachedCount ''2025-01-01''
        (markMultipleAsSent [\<lparr>url = ''u1''\<rparr>] url ''2025-01-01'' (emptyCache ''bypass'')) = 1"
  by (simp add: markMultipleAsSent_def emptyCache_def getTodayCache_def Map_has_def
        todaySet_def todayCache_add_def Set_add_def cachedCount_def)

section \<open>Properties of the dispatcher\<close>

text \<open>
  Every unseen article gets one delivery attempt, counted as a success or as a failure:
  a failed delivery does not end the loop.
\<close>

lemma sendLoop_counts:
  "sendLoop send today as (sc, fc, s) = (sc', fc', s') \<Longrightarrow> sc' + fc' = sc + fc + length as"
proof (induction as arbitrary: sc fc s)
  case Nil
  then show ?case by simp
next
  case (Cons a as)
  then show ?case
    by (cases "send a (messenger s)"; cases "fst (send a (messenger s))") fastforce+
qed

text \<open>
  C8. An article is meant to be marked seen exactly when its delivery succeeded.
  \<open>executeArticleCheck\<close> calls \<open>filterNewPosts\<close> with marking enabled, which records
  every unseen article before the first delivery is tried: with a memory-mode cache and
  one article whose delivery throws, the run reports no message sent and one failure,
  and the article is recorded as sent all the same.
\<close>

theorem failed_delivery_marked_seen:
  "executeArticleCheck neverDelivers ''2025-01-01'' [\<lparr>url = ''u1''\<rparr>]
       (new_scheduler (emptyCache ''memory'') ())
     = (\<lparr>success = True, articlesFound = 1, messagesSent = 0, failed = Some 1\<rparr>,
        new_scheduler
          \<lparr>cacheMode = ''memory'', dailyCache = [(''2025-01-01'', [''u1''])],
           cacheFile = Missing, writable = True\<rparr> ())
   \<and> fst (hasSent ''u1'' False ''2025-01-01''
        (cache (snd (executeArticleCheck neverDelivers ''2025-01-01'' [\<lparr>url = ''u1''\<rparr>]
                       (new_scheduler (emptyCache ''memory'') ())))))"
proof -
  have run: "executeArticleCheck neverDelivers ''2025-01-01'' [\<lparr>url = ''u1''\<rparr>]
       (new_scheduler (emptyCache ''memory'') ())
     = (\<lparr>success = True, articlesFound = 1, messagesSent = 0, failed = Some 1\<rparr>,
        new_scheduler
          \<lparr>cacheMode = ''memory'', dailyCache = [(''2025-01-01'', [''u1''])],
           cacheFile = Missing, writable = True\<rparr> ())"
    by (simp add: executeArticleCheck_def filterNewPosts_def getTodayCache_def Map_has_def
          todaySet_def Set_has_def todayCache_add_def Set_add_def new_scheduler_def
          neverDelivers_def emptyCache_def)
  show ?thesis
    unfolding run
    by (simp add: hasSent_def getTodayCache_def Map_has_def todaySet_def Set_has_def
          new_scheduler_def)
qed

section \<open>Properties of the batch orchestrator\<close>

lemma slice_pos:
  assumes "0 \<le> i" "0 < b"
  shows "slice xs i (i + b) = take (nat b) (drop (nat i) xs)"
proof (cases "i < int (length xs)")
  case False
  with assms show ?thesis
    by (simp add: slice_def Let_def min_def)
next
  case True
  show ?thesis
  proof (cases "i + b \<le> int (length xs)")
    case True
    with assms \<open>i < int (length xs)\<close> show ?thesis
      by (simp add: slice_def Let_def min_def)
  next
    case False
    with assms \<open>i < int (length xs)\<close>
    have "nat (int (length xs) - i) = length (drop (nat i) xs)" "length (drop (nat i) xs) \<le> nat b"
      by auto
    with assms \<open>i < int (length xs)\<close> False show ?thesis
      by (simp add: slice_def Let_def min_def)
  qed
qed

lemma batchLoop_total:
  "0 < batchSize \<Longrightarrow> 0 \<le> i \<Longrightarrow>
   batchLoop f batchSize items i results = Some (results @ map f (drop (nat i) items))"
proof (induction "length items - nat i" arbitrary: i results rule: less_induct)
  case less
  show ?case
  proof (cases "i < int (length items)")
    case False
    then show ?thesis
      by (subst batchLoop.simps) simp
  next
    case True
    have dec: "length items - nat (i + batchSize) < length items - nat i"
      using True less.prems by linarith
    have step: "batchLoop f batchSize items (i + batchSize)
        (results @ map f (slice items i (i + batchSize)))
      = Some ((results @ map f (slice items i (i + batchSize)))
              @ map f (drop (nat (i + batchSize)) items))"
      using less.hyps [OF dec] less.prems by simp
    have split: "take (nat batchSize) (drop (nat i) items) @ drop (nat (i + batchSize)) items
        = drop (nat i) items"
    proof -
      have n: "nat (i + batchSize) = nat batchSize + nat i"
        using less.prems by linarith
      have "take (nat batchSize) (drop (nat i) items)
          @ drop (nat batchSize) (drop (nat i) items) = drop (nat i) items"
        by (rule append_take_drop_id)
      then show ?thesis
        by (simp add: n)
    qed
    show ?thesis
      apply (subst batchLoop.simps)
      using True step split less.prems
      by (simp add: Let_def slice_pos flip: map_append)
  qed
qed

lemma processInBatches_total:
  "0 < batchSize \<Longrightarrow> processInBatches items f batchSize = Some (map f items)"
  by (simp add: processInBatches_def batchLoop_total)


lemma analyzeResult_row:
  "analyzeResult R (executeWithTimeout msg svc) =
     (case run svc of
        Returns r \<Rightarrow>
          R\<lparr>results_success := results_success R + 1,
            results_articlesFound := results_articlesFound R
              + (case r of None \<Rightarrow> 0 | Some x \<Rightarrow> articlesFound x),
            results_messagesSent := results_messagesSent R
              + (case r of None \<Rightarrow> 0 | Some x \<Rightarrow> messagesSent x),
            results_details := results_details R @
              [\<lparr>detail_service = name svc, detail_success = True,
                detail_articlesFound = (case r of None \<Rightarrow> 0 | Some x \<Rightarrow> articlesFound x),
                detail_messagesSent = (case r of None \<Rightarrow> 0 | Some x \<Rightarrow> messagesSent x),
                detail_duration = elapsed svc, detail_error = None\<rparr>]\<rparr>
      | Throws m \<Rightarrow>
          R\<lparr>results_failed := results_failed R + 1,
            results_details := results_details R @
              [\<lparr>detail_service = name svc, detail_success = False, detail_articlesFound = 0,
                detail_messagesSent = 0, detail_duration = elapsed svc,
                detail_error = Some m\<rparr>]\<rparr>
      | Hangs \<Rightarrow>
          R\<lparr>results_failed := results_failed R + 1,
            results_details := results_details R @
              [\<lparr>detail_service = ''Unknown'', detail_success = False, detail_articlesFound = 0,
                detail_messagesSent = 0, detail_duration = 0,
                detail_error = Some (if msg \<noteq> [] then msg else unknownError)\<rparr>]\<rparr>)"
  by (simp add: analyzeResult_def executeWithTimeout_def executeService_def Let_def
        split: behaviour.split)

lemma analyzeResults_fields:
  "results_total (analyzeResults R (map (executeWithTimeout msg) svcs)) = results_total R"
  "length (results_details (analyzeResults R (map (executeWithTimeout msg) svcs)))
     = length (results_details R) + length svcs"
  "results_success (analyzeResults R (map (executeWithTimeout msg) svcs))
     = results_success R + length (filter (\<lambda>s. \<exists>r. run s = Returns r) svcs)"
  "results_failed (analyzeResults R (map (executeWithTimeout msg) svcs))
     = results_failed R + length (filter (\<lambda>s. \<not> (\<exists>r. run s = Returns r)) svcs)"
  unfolding analyzeResults_def
  by (induction svcs arbitrary: R; simp add: analyzeResult_row split: behaviour.split)+

lemma analyzeResults_details:
  "results_details (analyzeResults R (map (executeWithTimeout msg) svcs))
     = results_details R @
       map (\<lambda>svc. case run svc of
              Returns r \<Rightarrow>
                \<lparr>detail_service = name svc, detail_success = True,
                 detail_articlesFound = (case r of None \<Rightarrow> 0 | Some x \<Rightarrow> articlesFound x),
                 detail_messagesSent = (case r of None \<Rightarrow> 0 | Some x \<Rightarrow> messagesSent x),
                 detail_duration = elapsed svc, detail_error = None\<rparr>
            | Throws m \<Rightarrow>
                \<lparr>detail_service = name svc, detail_success = False, detail_articlesFound = 0,
                 detail_messagesSent = 0, detail_duration = elapsed svc,
                 detail_error = Some m\<rparr>
            | Hangs \<Rightarrow>
                \<lparr>detail_service = ''Unknown'', detail_success = False,
                 detail_articlesFound = 0, detail_messagesSent = 0, detail_duration = 0,
                 detail_error = Some (if msg \<noteq> [] then msg else unknownError)\<rparr>) svcs"
  unfolding analyzeResults_def
  by (induction svcs arbitrary: R) (simp_all add: analyzeResult_row split: behaviour.split)

lemma executeAll_eq:
  "0 < batchSize \<Longrightarrow>
   executeAllServicesInParallel svcs batchSize msg =
     Some (analyzeResults
            \<lparr>results_total = length svcs, results_success = 0, results_failed = 0,
             results_articlesFound = 0, results_messagesSent = 0, results_details = []\<rparr>
            (map (executeWithTimeout msg) svcs))"
  by (simp add: executeAllServicesInParallel_def processInBatches_total)





lemma getRecentArticles_fetch_throws [simp]:
  "getRecentArticles (Inl e) isT nrm = []"
  by (simp add: getRecentArticles_def)

lemma executeArticleCheck_no_articles [simp]:
  "executeArticleCheck send today [] s =
     (\<lparr>success = True, articlesFound = 0, messagesSent = 0, failed = None\<rparr>, s)"
  by (simp add: executeArticleCheck_def)

lemma kofe_run_returns:
  assumes "\<not> src_timesOut src" "\<not> isRunning (src_scheduler src)"
  shows "\<exists>r. run (service_of today once src) = Returns (Some r)"
  using assms
  by (simp add: service_of_def runManualCheck_def executeJob_def kofe_check_def Let_def
        split: prod.split)

lemma kofe_run_fetch_throws:
  assumes "\<not> src_timesOut src" "\<not> isRunning (src_scheduler src)" "src_parseFeed src = Inl e"
  shows "run (service_of today once src) =
     Returns (Some \<lparr>success = True, articlesFound = 0, messagesSent = 0, failed = None\<rparr>)"
  using assms
  by (simp add: service_of_def runManualCheck_def executeJob_def kofe_check_def Let_def)

lemma service_of_fields [simp]:
  "name (service_of today once src) = src_name src"
  "elapsed (service_of today once src) = src_elapsed src"
  by (simp_all add: service_of_def)

text \<open>
  C6 (as amended). \<open>getRecentArticles\<close> catches the error of a feed that cannot be
  fetched and returns the empty list, so the run of that source ends as a success
  with no article. In a run with a positive batch size over sources none of which
  outlasts the timeout, where the fetch of one source throws, every source counts as
  succeeded and none as failed; the
  row of the source whose fetch threw is a success row with 0 articles and 0 messages,
  and the rows of all other sources are the rows of the run without that source.
\<close>

theorem fetch_failure_counts_as_success:
  assumes "0 < batchSize"
    and "\<forall>s \<in> set (xs @ x # ys). \<not> src_timesOut s \<and> \<not> isRunning (src_scheduler s)"
    and "src_parseFeed x = Inl e"
  shows "\<exists>R R'.
      executeAllServicesInParallel (map (service_of today once) (xs @ x # ys)) batchSize msg
        = Some R
    \<and> executeAllServicesInParallel (map (service_of today once) (xs @ ys)) batchSize msg
        = Some R'
    \<and> results_success R = length (xs @ x # ys)
    \<and> results_failed R = 0
    \<and> results_details R =
        take (length xs) (results_details R')
        @ [\<lparr>detail_service = src_name x, detail_success = True, detail_articlesFound = 0,
            detail_messagesSent = 0, detail_duration = src_elapsed x, detail_error = None\<rparr>]
        @ drop (length xs) (results_details R')"
proof -
  let ?svc = "service_of today once"
  have all: "\<forall>s \<in> set (xs @ x # ys). \<exists>r. run (?svc s) = Returns r"
    using assms(2) kofe_run_returns by blast
  have x: "run (?svc x) =
      Returns (Some \<lparr>success = True, articlesFound = 0, messagesSent = 0, failed = None\<rparr>)"
    using assms(2,3) by (simp add: kofe_run_fetch_throws)
  have ok: "filter (\<lambda>s. \<exists>r. run s = Returns r) (map ?svc (xs @ x # ys)) = map ?svc (xs @ x # ys)"
    using all by (simp add: filter_map o_def)
  have bad: "filter (\<lambda>s. \<not> (\<exists>r. run s = Returns r)) (map ?svc (xs @ x # ys)) = []"
    using all by (simp add: filter_map o_def)
  define R where "R = analyzeResults
      \<lparr>results_total = length (map ?svc (xs @ x # ys)), results_success = 0,
       results_failed = 0, results_articlesFound = 0, results_messagesSent = 0,
       results_details = []\<rparr>
      (map (executeWithTimeout msg) (map ?svc (xs @ x # ys)))"
  define R' where "R' = analyzeResults
      \<lparr>results_total = length (map ?svc (xs @ ys)), results_success = 0,
       results_failed = 0, results_articlesFound = 0, results_messagesSent = 0,
       results_details = []\<rparr>
      (map (executeWithTimeout msg) (map ?svc (xs @ ys)))"
  have run_all: "executeAllServicesInParallel (map ?svc (xs @ x # ys)) batchSize msg = Some R"
    unfolding R_def by (rule executeAll_eq [OF assms(1)])
  have run_rest: "executeAllServicesInParallel (map ?svc (xs @ ys)) batchSize msg = Some R'"
    unfolding R'_def by (rule executeAll_eq [OF assms(1)])
  have succeeded: "results_success R = length (xs @ x # ys)"
    unfolding R_def by (simp only: analyzeResults_fields ok) simp
  have none_failed: "results_failed R = 0"
    unfolding R_def by (simp only: analyzeResults_fields bad) simp
  have rows: "results_details R =
        take (length xs) (results_details R')
        @ [\<lparr>detail_service = src_name x, detail_success = True, detail_articlesFound = 0,
            detail_messagesSent = 0, detail_duration = src_elapsed x, detail_error = None\<rparr>]
        @ drop (length xs) (results_details R')"
    unfolding R_def R'_def by (simp only: analyzeResults_details) (simp add: x)
  show ?thesis
    using run_all run_rest succeeded none_failed rows by blast
qed

theorem fetch_failure_counts_as_success_witness:
  "map_option (\<lambda>R. (results_success R, results_failed R, hd (results_details R)))
     (executeAllServicesInParallel
        (map (service_of ''2025-01-01'' True) [src_unreachable, src_healthy]) 3
        ''timed out (30000ms)'') =
   Some (2, 0,
     \<lparr>detail_service = ''kofeArticle'', detail_success = True, detail_articlesFound = 0,
      detail_messagesSent = 0, detail_duration = 35, detail_error = None\<rparr>)"
proof -
  have pos: "(0::int) < 3" by simp
  have idle: "\<forall>s \<in> set ([] @ src_unreachable # [src_healthy]).
      \<not> src_timesOut s \<and> \<not> isRunning (src_scheduler s)"
    by (simp add: src_unreachable_def src_healthy_def new_scheduler_def)
  have throws: "src_parseFeed src_unreachable = Inl (Error ''ECONNREFUSED'')"
    by (simp add: src_unreachable_def)
  show ?thesis
    using fetch_failure_counts_as_success [OF pos idle throws,
        of "''2025-01-01''" True "''timed out (30000ms)''"]
    by (auto simp: src_unreachable_def)
qed

text \<open>
  C6, as stated, asks for \<open>succeeded = N - 1\<close> and \<open>failed = 1\<close>. With two sources,
  the first of which has an unreachable feed, the run reports 2 succeeded and 0 failed.
\<close>

theorem unreachable_feed_reported_as_success:
  "map_option (\<lambda>R. (results_total R, results_success R, results_failed R))
     (executeAllServicesInParallel
        (map (service_of ''2025-01-01'' True) [src_unreachable, src_healthy]) 3
        ''timed out (30000ms)'') = Some (2, 2, 0)"
proof -
  have a: "run (service_of ''2025-01-01'' True src_unreachable) =
      Returns (Some \<lparr>success = True, articlesFound = 0, messagesSent = 0, failed = None\<rparr>)"
    by (rule kofe_run_fetch_throws)
       (simp_all add: src_unreachable_def new_scheduler_def)
  obtain r where b: "run (service_of ''2025-01-01'' True src_healthy) = Returns (Some r)"
    using kofe_run_returns [of src_healthy "''2025-01-01''" True]
    by (auto simp: src_healthy_def new_scheduler_def)
  show ?thesis
    by (simp add: executeAll_eq analyzeResults_def analyzeResult_row a b)
qed

section \<open>Properties of overlapping calls\<close>

lemma step_inv: "lock_inv s \<Longrightarrow> lock_inv (step e s)"
  by (cases e) (auto simp: lock_inv_def startJob_def startManual_def split: list.splits)

lemma after_inv: "lock_inv s \<Longrightarrow> lock_inv (after es s)"
  unfolding after_def by (induction es arbitrary: s) (simp_all add: step_inv)

lemma initial_inv: "lock_inv (initial c m)"
  by (simp add: lock_inv_def initial_def new_scheduler_def)

lemma waiter_leaves_only_to_run:
  "lock_inv s \<Longrightarrow> length (waiting (step e s)) < length (waiting s) \<Longrightarrow>
     inflight s = [] \<and> inflight (step e s) = [Manual]"
  by (cases e) (auto simp: lock_inv_def startJob_def startManual_def split: list.splits if_splits)

text \<open>
  C10. In every state that a scheduler reaches from its construction through calls of
  \<open>executeScheduledJob\<close> and \<open>runManualCheck\<close> in any interleaving, at most one run is
  in flight. A manual call made while a scheduled run is in flight starts nothing and
  joins the waiting calls; while any run is in flight a poll of a waiting call leaves the
  state as it is; a call leaves the waiting calls only by starting its run, with no other
  run in flight. A scheduled call made while a manual run is in flight is counted as
  skipped and changes nothing else: it neither starts nor waits.
\<close>

theorem manual_and_scheduled_exclude:
  "(let s = after es (initial c m) in
      length (inflight s) \<le> 1
    \<and> (inflight s = [Scheduled] \<longrightarrow>
         step (ManualCall b) s = s\<lparr>waiting := waiting s @ [b]\<rparr>)
    \<and> (inflight s \<noteq> [] \<longrightarrow> step (Poll i) s = s)
    \<and> (length (waiting (step e s)) < length (waiting s) \<longrightarrow>
         inflight s = [] \<and> inflight (step e s) = [Manual])
    \<and> (inflight s = [Manual] \<longrightarrow> step Tick s = s\<lparr>skipped := skipped s + 1\<rparr>))"
proof -
  have inv: "lock_inv (after es (initial c m))"
    by (simp add: after_inv initial_inv)
  then show ?thesis
    using waiter_leaves_only_to_run [OF inv, of e]
    by (auto simp: Let_def lock_inv_def)
qed

theorem manual_and_scheduled_exclude_witness:
  "inflight (after [Tick] (initial (emptyCache ''memory'') ())) = [Scheduled]
   \<and> step (ManualCall False) (after [Tick] (initial (emptyCache ''memory'') ()))
       = (after [Tick] (initial (emptyCache ''memory'') ()))\<lparr>waiting := [False]\<rparr>
   \<and> step (Poll 0) (after [Tick, ManualCall False] (initial (emptyCache ''memory'') ()))
       = after [Tick, ManualCall False] (initial (emptyCache ''memory'') ())
   \<and> inflight (after [Tick, ManualCall False, Settle True, Poll 0]
        (initial (emptyCache ''memory'') ())) = [Manual]
   \<and> step Tick (after [Tick, ManualCall False, Settle True, Poll 0]
        (initial (emptyCache ''memory'') ()))
       = (after [Tick, ManualCall False, Settle True, Poll 0]
           (initial (emptyCache ''memory'') ()))\<lparr>skipped := 1\<rparr>"
  using manual_and_scheduled_exclude [of "[Tick]" "emptyCache ''memory''" "()" False 0 Tick]
    manual_and_scheduled_exclude [of "[Tick, ManualCall False]" "emptyCache ''memory''" "()" False 0 "Poll 0"]
    manual_and_scheduled_exclude [of "[Tick, ManualCall False, Settle True, Poll 0]"
      "emptyCache ''memory''" "()" False 0 Tick]
  by (simp add: Let_def after_def initial_def new_scheduler_def startJob_def startManual_def)

end
